theory Spec2Isabelle
  imports Complex_Main "HOL-Library.Multiset" "HOL-Library.Sublist"
begin

section \<open>Anomaly detection service: a shallow embedding\<close>

text \<open>
  The development follows \<^verbatim>\<open>internal/services/anomaly_service.go\<close>, the rule service
  (\<^verbatim>\<open>AnomalyRuleService\<close>) and the table definitions of
  \<^verbatim>\<open>internal/services/database_service.go\<close>. The service talks to PostgreSQL through
  \<^verbatim>\<open>DatabaseServiceInterface\<close>; the database is an explicit state here, and every
  call through the interface is recorded and may fail.
\<close>

subsection \<open>float64\<close>

text \<open>
  A \<^verbatim>\<open>float64\<close> is a finite real, an infinity or NaN. Comparisons are exact, as in
  IEEE 754. Subtraction and division round their exact finite result with the function
  \<open>round64\<close> of the platform, which is left open: every theorem below holds for every
  rounding function. The sign of a zero is not represented; it only decides the sign of
  an infinite quotient, and the detection code takes the absolute value of the quotient.
\<close>

datatype f64 = Finite real | PosInf | NegInf | NaN

fun feq :: "f64 \<Rightarrow> f64 \<Rightarrow> bool" where
  "feq (Finite a) (Finite b) = (a = b)"
| "feq PosInf PosInf = True"
| "feq NegInf NegInf = True"
| "feq _ _ = False"

fun flt :: "f64 \<Rightarrow> f64 \<Rightarrow> bool" where
  "flt (Finite a) (Finite b) = (a < b)"
| "flt (Finite a) PosInf = True"
| "flt NegInf (Finite b) = True"
| "flt NegInf PosInf = True"
| "flt _ _ = False"

definition fgt :: "f64 \<Rightarrow> f64 \<Rightarrow> bool" where
  "fgt x y = flt y x"

definition fle :: "f64 \<Rightarrow> f64 \<Rightarrow> bool" where
  "fle x y = (flt x y \<or> feq x y)"

definition fge :: "f64 \<Rightarrow> f64 \<Rightarrow> bool" where
  "fge x y = (flt y x \<or> feq x y)"

fun fabs :: "f64 \<Rightarrow> f64" where
  "fabs (Finite a) = Finite \<bar>a\<bar>"
| "fabs PosInf = PosInf"
| "fabs NegInf = PosInf"
| "fabs NaN = NaN"

fun fsub :: "(real \<Rightarrow> f64) \<Rightarrow> f64 \<Rightarrow> f64 \<Rightarrow> f64" where
  "fsub rnd (Finite a) (Finite b) = rnd (a - b)"
| "fsub rnd NaN _ = NaN"
| "fsub rnd _ NaN = NaN"
| "fsub rnd PosInf PosInf = NaN"
| "fsub rnd NegInf NegInf = NaN"
| "fsub rnd PosInf _ = PosInf"
| "fsub rnd NegInf _ = NegInf"
| "fsub rnd (Finite a) PosInf = NegInf"
| "fsub rnd (Finite a) NegInf = PosInf"

fun fdiv :: "(real \<Rightarrow> f64) \<Rightarrow> f64 \<Rightarrow> f64 \<Rightarrow> f64" where
  "fdiv rnd (Finite a) (Finite b) =
     (if b = 0 then (if a = 0 then NaN else if 0 < a then PosInf else NegInf)
      else rnd (a / b))"
| "fdiv rnd NaN _ = NaN"
| "fdiv rnd _ NaN = NaN"
| "fdiv rnd (Finite a) PosInf = Finite 0"
| "fdiv rnd (Finite a) NegInf = Finite 0"
| "fdiv rnd PosInf (Finite b) = (if 0 \<le> b then PosInf else NegInf)"
| "fdiv rnd NegInf (Finite b) = (if 0 \<le> b then NegInf else PosInf)"
| "fdiv rnd _ _ = NaN"

subsection \<open>Models (package models)\<close>

type_synonym AnomalyType = string
type_synonym ComparisonOperator = string

definition AnomalyTypeMaxSalary :: AnomalyType where "AnomalyTypeMaxSalary = ''max_salary''"
definition AnomalyTypeMinSalary :: AnomalyType where "AnomalyTypeMinSalary = ''min_salary''"
definition AnomalyTypeRating :: AnomalyType where "AnomalyTypeRating = ''company_rating''"
definition AnomalyTypeNullValues :: AnomalyType where "AnomalyTypeNullValues = ''null_values''"
definition AnomalyTypeDeviation :: AnomalyType where "AnomalyTypeDeviation = ''standard_deviation''"

definition GreaterThan :: ComparisonOperator where "GreaterThan = ''>''"
definition GreaterThanOrEqual :: ComparisonOperator where "GreaterThanOrEqual = ''>=''"
definition LessThan :: ComparisonOperator where "LessThan = ''<''"
definition LessThanOrEqual :: ComparisonOperator where "LessThanOrEqual = ''<=''"
definition Equal :: ComparisonOperator where "Equal = ''=''"

text \<open>
  \<^verbatim>\<open>models.Anomaly\<close>. The Go field \<^verbatim>\<open>ID\<close> is a string that receives the decimal
  rendering of the key the database assigns; \<open>None\<close> is the empty string of a value
  that was never stored. Times are ticks of a clock.
\<close>

record Anomaly =
  aID :: "nat option"
  aType :: AnomalyType
  aJobID :: string
  aDescription :: string
  aValue :: f64
  aThreshold :: f64
  aOperator :: ComparisonOperator
  aCreatedAt :: nat
  aViolations :: "string list"

text \<open>\<^verbatim>\<open>models.AnomalyRule\<close>, which is also a row of table \<^verbatim>\<open>anomaly_rules\<close>.\<close>

record AnomalyRule =
  rID :: nat
  rName :: string
  rDescription :: string
  rType :: AnomalyType
  rOperator :: ComparisonOperator
  rValue :: f64
  rIsActive :: bool
  rCreatedAt :: nat
  rUpdatedAt :: nat

text \<open>
  \<^verbatim>\<open>models.JobData\<close>, restricted to the fields the anomaly service reads. A nil pointer
  is \<open>None\<close>.
\<close>

record JobData =
  CompanyName :: string
  CompanyRating :: f64
  CompanyAddress :: string
  CompanyWebsite :: string
  JobTitle :: string
  JobID :: string
  JobLink :: string
  JobDescription :: string
  MinSalary :: "f64 option"
  MaxSalary :: "f64 option"
  City :: string

text \<open>\<^verbatim>\<open>services.Statistics\<close>, the four fields \<^verbatim>\<open>getStatistics\<close> fills.\<close>

record Statistics =
  AvgSalary :: f64
  SalaryStdDev :: f64
  AvgRating :: f64
  RatingStdDev :: f64

subsection \<open>The database behind \<^verbatim>\<open>DatabaseServiceInterface\<close>\<close>

text \<open>
  A row of table \<^verbatim>\<open>jobs\<close>, restricted to the columns the anomaly service selects.
  \<^verbatim>\<open>company_name\<close> and \<^verbatim>\<open>job_title\<close> are \<^verbatim>\<open>NOT NULL\<close>; the numeric columns are
  nullable.
\<close>

record job_row =
  job_id :: string
  company_name :: string
  company_rating :: "f64 option"
  job_title :: string
  min_salary :: "f64 option"
  max_salary :: "f64 option"

datatype error =
    DriverError
  | ScanNull
  | ForeignKeyViolation
  | UniqueViolation
  | Wrap string error

datatype db_call =
    InsertAnomaly Anomaly
  | SelectStatistics
  | SelectRules
  | SelectJobs
  | SelectAnomaliesByJob string
  | InsertRule AnomalyRule

text \<open>One constructor for each \<^verbatim>\<open>fmt.Printf\<close> of the service.\<close>

datatype log_entry =
    SaveNullFailed string error
  | SaveSalaryDeviationFailed string error
  | SaveRatingDeviationFailed string error
  | SaveRuleAnomalyFailed string nat error
  | DetectFailed string error

text \<open>
  The state: the three tables, the two \<^verbatim>\<open>BIGSERIAL\<close> sequences, the clock read by
  \<^verbatim>\<open>time.Now()\<close>, the calls made through the interface so far, the lines printed so
  far, and \<open>faults\<close>, which says of the n-th call through the interface (from 0)
  whether the driver fails it. The clock does not advance inside one operation. A
  query that the driver does not fail delivers all its rows: a cursor that breaks
  half way (\<^verbatim>\<open>rows.Err()\<close>) is not represented. The rows of table
  \<^verbatim>\<open>anomalies\<close> are those \<^verbatim>\<open>saveAnomaly\<close> wrote, so none of their columns is
  \<^verbatim>\<open>NULL\<close>.
\<close>

record world =
  jobs :: "job_row list"
  anomalies :: "Anomaly list"
  anomaly_rules :: "AnomalyRule list"
  next_anomaly_id :: nat
  next_rule_id :: nat
  clock :: nat
  calls :: "db_call list"
  faults :: "nat \<Rightarrow> bool"
  printed :: "log_entry list"

text \<open>
  What lies outside the repository: the rounding of float64 arithmetic, the rendering of
  \<^verbatim>\<open>%.2f\<close>, and the aggregates \<^verbatim>\<open>AVG\<close> and \<^verbatim>\<open>STDDEV\<close> that PostgreSQL computes
  over a non-empty set of rows (a \<^verbatim>\<open>NULL\<close> is \<open>None\<close>).
\<close>

record platform =
  round64 :: "real \<Rightarrow> f64"
  sprintf_2f :: "f64 \<Rightarrow> string"
  aggregates :: "job_row list \<Rightarrow> f64 option \<times> f64 option \<times> f64 option \<times> f64 option"

text \<open>
  A call through the interface is recorded; the result says whether the driver fails it.
\<close>

definition db_call :: "db_call \<Rightarrow> world \<Rightarrow> bool \<times> world" where
  "db_call c w = (faults w (length (calls w)), w\<lparr>calls := calls w @ [c]\<rparr>)"


text \<open>
  \<^verbatim>\<open>saveAnomaly\<close>: the \<^verbatim>\<open>INSERT ... RETURNING id\<close> into table \<^verbatim>\<open>anomalies\<close>, whose
  \<^verbatim>\<open>job_id\<close> references \<^verbatim>\<open>jobs(job_id)\<close>. On success the assigned key is written
  back through the pointer. Keys are consecutive here; which keys PostgreSQL skips
  after a failed insert plays no role.
\<close>

definition saveAnomaly :: "Anomaly \<Rightarrow> world \<Rightarrow> (error + Anomaly) \<times> world" where
  "saveAnomaly anomaly w =
     (let (bad, w1) = db_call (InsertAnomaly anomaly) w in
      if bad then (Inl (Wrap ''error inserting anomaly'' DriverError), w1)
      else if aJobID anomaly \<notin> set (map job_id (jobs w1))
      then (Inl (Wrap ''error inserting anomaly'' ForeignKeyViolation), w1)
      else (let stored = anomaly\<lparr>aID := Some (next_anomaly_id w1)\<rparr>
            in (Inr stored,
                w1\<lparr>anomalies := anomalies w1 @ [stored],
                   next_anomaly_id := Suc (next_anomaly_id w1)\<rparr>)))"

text \<open>
  The statistics query: \<^verbatim>\<open>WHERE max_salary IS NOT NULL AND company_rating > 0\<close>
  (PostgreSQL orders NaN above every number). An aggregate over no rows is
  \<^verbatim>\<open>NULL\<close>, and \<^verbatim>\<open>Scan\<close> cannot store a \<^verbatim>\<open>NULL\<close> in a \<^verbatim>\<open>float64\<close>.
\<close>

definition qualifying :: "job_row \<Rightarrow> bool" where
  "qualifying r =
     (max_salary r \<noteq> None \<and>
      (case company_rating r of None \<Rightarrow> False | Some x \<Rightarrow> x = NaN \<or> fgt x (Finite 0)))"

definition statistics_row ::
  "platform \<Rightarrow> world \<Rightarrow> f64 option \<times> f64 option \<times> f64 option \<times> f64 option" where
  "statistics_row P w =
     (let rows = filter qualifying (jobs w)
      in if rows = [] then (None, None, None, None) else aggregates P rows)"

fun scan_statistics ::
  "f64 option \<times> f64 option \<times> f64 option \<times> f64 option \<Rightarrow> error + Statistics" where
  "scan_statistics (Some a, Some b, Some c, Some d) =
     Inr \<lparr>AvgSalary = a, SalaryStdDev = b, AvgRating = c, RatingStdDev = d\<rparr>"
| "scan_statistics _ = Inl ScanNull"

definition getStatistics :: "platform \<Rightarrow> world \<Rightarrow> (error + Statistics) \<times> world" where
  "getStatistics P w =
     (let (bad, w1) = db_call SelectStatistics w in
      if bad then (Inl (Wrap ''error getting statistics'' DriverError), w1)
      else (case scan_statistics (statistics_row P w1) of
              Inl err \<Rightarrow> (Inl (Wrap ''error getting statistics'' err), w1)
            | Inr stats \<Rightarrow> (Inr stats, w1)))"

subsection \<open>The rule service\<close>

text \<open>
  \<^verbatim>\<open>GetAnomalyRules\<close>: every rule, \<^verbatim>\<open>ORDER BY created_at DESC\<close>. SQL leaves the order
  of rows with equal \<^verbatim>\<open>created_at\<close> open; here the later row comes first.
\<close>

definition order_by_created_at_desc :: "AnomalyRule list \<Rightarrow> AnomalyRule list" where
  "order_by_created_at_desc rows = rev (sort_key rCreatedAt rows)"

definition GetAnomalyRules :: "world \<Rightarrow> (error + AnomalyRule list) \<times> world" where
  "GetAnomalyRules w =
     (let (bad, w1) = db_call SelectRules w in
      if bad then (Inl (Wrap ''error querying anomaly rules'' DriverError), w1)
      else (Inr (order_by_created_at_desc (anomaly_rules w1)), w1))"

text \<open>
  \<^verbatim>\<open>CreateAnomalyRule\<close>: stamps the rule and inserts it; \<^verbatim>\<open>name\<close> is \<^verbatim>\<open>UNIQUE\<close>.
  The result is the error (\<open>None\<close> is \<^verbatim>\<open>nil\<close>), the rule as the caller sees it through
  the pointer, and the new state.
\<close>

definition CreateAnomalyRule ::
  "AnomalyRule \<Rightarrow> world \<Rightarrow> error option \<times> AnomalyRule \<times> world" where
  "CreateAnomalyRule rule w =
     (let rule1 = rule\<lparr>rCreatedAt := clock w, rUpdatedAt := clock w\<rparr>;
          (bad, w1) = db_call (InsertRule rule1) w
      in if bad then (Some (Wrap ''error creating anomaly rule'' DriverError), rule1, w1)
         else if rName rule1 \<in> set (map rName (anomaly_rules w1))
         then (Some (Wrap ''error creating anomaly rule'' UniqueViolation), rule1, w1)
         else (let stored = rule1\<lparr>rID := next_rule_id w1\<rparr>
               in (None, stored,
                   w1\<lparr>anomaly_rules := anomaly_rules w1 @ [stored],
                      next_rule_id := Suc (next_rule_id w1)\<rparr>)))"

subsection \<open>The anomaly service\<close>

definition StdDevThreshold :: f64 where
  "StdDevThreshold = Finite 3"

definition ValidOperators :: "ComparisonOperator list" where
  "ValidOperators = [GreaterThan, GreaterThanOrEqual, LessThan, LessThanOrEqual, Equal]"

fun IsValidOperator_loop :: "ComparisonOperator \<Rightarrow> ComparisonOperator list \<Rightarrow> bool" where
  "IsValidOperator_loop op [] = False"
| "IsValidOperator_loop op (validOp # rest) =
     (if op = validOp then True else IsValidOperator_loop op rest)"

definition IsValidOperator :: "ComparisonOperator \<Rightarrow> bool" where
  "IsValidOperator op = IsValidOperator_loop op ValidOperators"

definition compareValues :: "f64 \<Rightarrow> f64 \<Rightarrow> ComparisonOperator \<Rightarrow> bool" where
  "compareValues val threshold operator =
     (if operator = GreaterThan then fgt val threshold
      else if operator = GreaterThanOrEqual then fge val threshold
      else if operator = LessThan then flt val threshold
      else if operator = LessThanOrEqual then fle val threshold
      else if operator = Equal then feq val threshold
      else False)"

text \<open>
  The pattern around every \<^verbatim>\<open>saveAnomaly\<close> call: on an error print a line and go on,
  otherwise append the stored anomaly to \<^verbatim>\<open>detectedAnomalies\<close>.
\<close>

definition save_or_print ::
  "(error \<Rightarrow> log_entry) \<Rightarrow> Anomaly \<Rightarrow> Anomaly list \<times> world \<Rightarrow> Anomaly list \<times> world" where
  "save_or_print line anomaly s =
     (case s of (detected, w) \<Rightarrow>
        (case saveAnomaly anomaly w of
           (Inl err, w1) \<Rightarrow> (detected, w1\<lparr>printed := printed w1 @ [line err]\<rparr>)
         | (Inr saved, w1) \<Rightarrow> (detected @ [saved], w1)))"

text \<open>\<^verbatim>\<open>DetectAnomalies\<close>, lines 127 to 149: the required fields that are empty.\<close>

definition nullViolations :: "JobData \<Rightarrow> string list" where
  "nullViolations job =
     (if CompanyName job = [] then [''company_name''] else []) @
     (if JobTitle job = [] then [''job_title''] else []) @
     (if JobDescription job = [] then [''job_description''] else []) @
     (if City job = [] then [''city''] else []) @
     (if CompanyAddress job = [] then [''company_address''] else []) @
     (if CompanyWebsite job = [] then [''company_website''] else []) @
     (if JobLink job = [] then [''job_link''] else [])"

text \<open>Lines 153 to 162, the struct literal; \<open>now\<close> is the value of \<^verbatim>\<open>time.Now()\<close>.\<close>

definition nullAnomaly :: "JobData \<Rightarrow> nat \<Rightarrow> Anomaly" where
  "nullAnomaly job now =
     \<lparr>aID = None, aType = AnomalyTypeNullValues, aJobID = JobID job,
      aDescription = ''Required fields are null'',
      aValue = Finite 0, aThreshold = Finite 0, aOperator = Equal,
      aCreatedAt = now, aViolations = nullViolations job\<rparr>"

text \<open>Lines 151 to 168.\<close>

definition check_nulls :: "JobData \<Rightarrow> Anomaly list \<times> world \<Rightarrow> Anomaly list \<times> world" where
  "check_nulls job s =
     (if 0 < length (nullViolations job)
      then save_or_print (SaveNullFailed (JobID job)) (nullAnomaly job (clock (snd s))) s
      else s)"

text \<open>Lines 178 and 199, the z-score \<^verbatim>\<open>(value - mean) / stddev\<close>.\<close>

definition zScore :: "platform \<Rightarrow> f64 \<Rightarrow> f64 \<Rightarrow> f64 \<Rightarrow> f64" where
  "zScore P v mean stddev = fdiv (round64 P) (fsub (round64 P) v mean) stddev"

text \<open>Lines 180 to 189 and lines 201 to 210, the struct literals.\<close>

definition salaryDeviationAnomaly ::
  "platform \<Rightarrow> JobData \<Rightarrow> Statistics \<Rightarrow> f64 \<Rightarrow> nat \<Rightarrow> Anomaly" where
  "salaryDeviationAnomaly P job stats maxSalary now =
     \<lparr>aID = None, aType = AnomalyTypeDeviation, aJobID = JobID job,
      aDescription =
        ''Salary deviates significantly from mean (z-score: '' @
        sprintf_2f P (zScore P maxSalary (AvgSalary stats) (SalaryStdDev stats)) @ '')'',
      aValue = maxSalary, aThreshold = AvgSalary stats, aOperator = Equal,
      aCreatedAt = now, aViolations = [''max_salary'']\<rparr>"

definition ratingDeviationAnomaly ::
  "platform \<Rightarrow> JobData \<Rightarrow> Statistics \<Rightarrow> nat \<Rightarrow> Anomaly" where
  "ratingDeviationAnomaly P job stats now =
     \<lparr>aID = None, aType = AnomalyTypeDeviation, aJobID = JobID job,
      aDescription =
        ''Company rating deviates significantly from mean (z-score: '' @
        sprintf_2f P (zScore P (CompanyRating job) (AvgRating stats) (RatingStdDev stats)) @
        '')'',
      aValue = CompanyRating job, aThreshold = AvgRating stats, aOperator = Equal,
      aCreatedAt = now, aViolations = [''company_rating'']\<rparr>"

text \<open>Lines 177 to 196.\<close>

definition check_salary_deviation ::
  "platform \<Rightarrow> JobData \<Rightarrow> Statistics \<Rightarrow> Anomaly list \<times> world \<Rightarrow> Anomaly list \<times> world" where
  "check_salary_deviation P job stats s =
     (case MaxSalary job of
        None \<Rightarrow> s
      | Some maxSalary \<Rightarrow>
          if fgt (fabs (zScore P maxSalary (AvgSalary stats) (SalaryStdDev stats)))
               StdDevThreshold
          then save_or_print (SaveSalaryDeviationFailed (JobID job))
                 (salaryDeviationAnomaly P job stats maxSalary (clock (snd s))) s
          else s)"

text \<open>Lines 198 to 217. In Go \<^verbatim>\<open>x != 0\<close> is true of NaN.\<close>

definition check_rating_deviation ::
  "platform \<Rightarrow> JobData \<Rightarrow> Statistics \<Rightarrow> Anomaly list \<times> world \<Rightarrow> Anomaly list \<times> world" where
  "check_rating_deviation P job stats s =
     (if \<not> feq (CompanyRating job) (Finite 0)
      then if fgt (fabs (zScore P (CompanyRating job) (AvgRating stats) (RatingStdDev stats)))
                StdDevThreshold
           then save_or_print (SaveRatingDeviationFailed (JobID job))
                  (ratingDeviationAnomaly P job stats (clock (snd s))) s
           else s
      else s)"

text \<open>
  Lines 231 to 253, the \<^verbatim>\<open>switch\<close> on the rule's type: \<open>None\<close> is the
  \<^verbatim>\<open>default: continue\<close>, otherwise the pair of \<^verbatim>\<open>anomalyDetected\<close> and
  \<^verbatim>\<open>actualValue\<close>, which start as \<^verbatim>\<open>false\<close> and \<^verbatim>\<open>0\<close>.
\<close>

definition rule_switch :: "JobData \<Rightarrow> AnomalyRule \<Rightarrow> (bool \<times> f64) option" where
  "rule_switch job rule =
     (if rType rule = AnomalyTypeMaxSalary then
        (case MaxSalary job of
           Some v \<Rightarrow> Some (compareValues v (rValue rule) (rOperator rule), v)
         | None \<Rightarrow> Some (False, Finite 0))
      else if rType rule = AnomalyTypeMinSalary then
        (case MinSalary job of
           Some v \<Rightarrow> Some (compareValues v (rValue rule) (rOperator rule), v)
         | None \<Rightarrow> Some (False, Finite 0))
      else if rType rule = AnomalyTypeRating then
        Some (compareValues (CompanyRating job) (rValue rule) (rOperator rule),
              CompanyRating job)
      else None)"

text \<open>Lines 256 to 264, the struct literal; \<^verbatim>\<open>Violations\<close> is not set.\<close>

definition ruleAnomaly :: "JobData \<Rightarrow> AnomalyRule \<Rightarrow> f64 \<Rightarrow> nat \<Rightarrow> Anomaly" where
  "ruleAnomaly job rule actualValue now =
     \<lparr>aID = None, aType = rType rule, aJobID = JobID job,
      aDescription = rDescription rule,
      aValue = actualValue, aThreshold = rValue rule, aOperator = rOperator rule,
      aCreatedAt = now, aViolations = []\<rparr>"

text \<open>Lines 226 to 274, one iteration of the loop over the rules.\<close>

definition apply_rule :: "JobData \<Rightarrow> AnomalyRule \<Rightarrow> Anomaly list \<times> world \<Rightarrow> Anomaly list \<times> world" where
  "apply_rule job rule s =
     (if \<not> rIsActive rule then s
      else (case rule_switch job rule of
              None \<Rightarrow> s
            | Some (anomalyDetected, actualValue) \<Rightarrow>
                if anomalyDetected
                then save_or_print (SaveRuleAnomalyFailed (JobID job) (rID rule))
                       (ruleAnomaly job rule actualValue (clock (snd s))) s
                else s))"

fun apply_rules :: "JobData \<Rightarrow> AnomalyRule list \<Rightarrow> Anomaly list \<times> world \<Rightarrow> Anomaly list \<times> world" where
  "apply_rules job [] s = s"
| "apply_rules job (rule # rules) s = apply_rules job rules (apply_rule job rule s)"

text \<open>
  \<^verbatim>\<open>DetectAnomalies\<close>. An error of \<^verbatim>\<open>getStatistics\<close> or of \<^verbatim>\<open>GetAnomalyRules\<close> is
  returned with a nil slice.
\<close>

definition DetectAnomalies ::
  "platform \<Rightarrow> JobData \<Rightarrow> world \<Rightarrow> (error + Anomaly list) \<times> world" where
  "DetectAnomalies P job w =
     (let s1 = check_nulls job ([], w) in
      case getStatistics P (snd s1) of
        (Inl err, w2) \<Rightarrow> (Inl (Wrap ''error getting statistics'' err), w2)
      | (Inr stats, w2) \<Rightarrow>
          (let s3 = check_salary_deviation P job stats (fst s1, w2);
               s4 = check_rating_deviation P job stats s3
           in case GetAnomalyRules (snd s4) of
                (Inl err, w5) \<Rightarrow>
                  (Inl (Wrap ''error getting anomaly rules via service'' err), w5)
              | (Inr rules, w5) \<Rightarrow>
                  (let s6 = apply_rules job rules (fst s4, w5) in (Inr (fst s6), snd s6))))"

text \<open>
  \<^verbatim>\<open>GetAnomaliesByJobID\<close>. The query does not select \<^verbatim>\<open>violations\<close>, so that field of
  a scanned anomaly stays nil. Rows with equal \<^verbatim>\<open>created_at\<close> come later row first.
\<close>

definition scan_anomaly :: "Anomaly \<Rightarrow> Anomaly" where
  "scan_anomaly row = row\<lparr>aViolations := []\<rparr>"

definition GetAnomaliesByJobID :: "string \<Rightarrow> world \<Rightarrow> (error + Anomaly list) \<times> world" where
  "GetAnomaliesByJobID jobID w =
     (let (bad, w1) = db_call (SelectAnomaliesByJob jobID) w in
      if bad then (Inl (Wrap ''error querying anomalies by job ID'' DriverError), w1)
      else (let rows = rev (sort_key aCreatedAt (filter (\<lambda>a. aJobID a = jobID) (anomalies w1)));
                found = map scan_anomaly rows
            in if length found = 0 then (Inr [], w1) else (Inr found, w1)))"




subsection \<open>What a detection emits\<close>

text \<open>
  \<^verbatim>\<open>DetectAnomalies\<close> emits an anomaly when it hands it to \<^verbatim>\<open>saveAnomaly\<close>, whether
  the insert succeeds or not. The anomalies a detection emits are read off the calls it
  adds to those already made.
\<close>

fun inserted :: "db_call list \<Rightarrow> Anomaly list" where
  "inserted [] = []"
| "inserted (InsertAnomaly a # cs) = a # inserted cs"
| "inserted (c # cs) = inserted cs"

definition emitted :: "platform \<Rightarrow> JobData \<Rightarrow> world \<Rightarrow> Anomaly list" where
  "emitted P job w = inserted (drop (length (calls w)) (calls (snd (DetectAnomalies P job w))))"


text \<open>
  The result of the one statistics query a detection makes, the state in which the
  detection fetches the rules once the statistics are there, and the result of that
  fetch.
\<close>

definition statistics_of :: "platform \<Rightarrow> JobData \<Rightarrow> world \<Rightarrow> error + Statistics" where
  "statistics_of P job w = fst (getStatistics P (snd (check_nulls job ([], w))))"

definition before_rules ::
  "platform \<Rightarrow> JobData \<Rightarrow> Statistics \<Rightarrow> world \<Rightarrow> Anomaly list \<times> world" where
  "before_rules P job stats w =
     (let s1 = check_nulls job ([], w);
          w2 = snd (getStatistics P (snd s1))
      in check_rating_deviation P job stats (check_salary_deviation P job stats (fst s1, w2)))"

definition rules_of ::
  "platform \<Rightarrow> JobData \<Rightarrow> Statistics \<Rightarrow> world \<Rightarrow> error + AnomalyRule list" where
  "rules_of P job stats w = fst (GetAnomalyRules (snd (before_rules P job stats w)))"


text \<open>
  What each part of a detection emits, as a function of the job, the statistics, the
  rule and the clock: lines 151 to 168, lines 177 to 196, lines 198 to 217, and one
  iteration of the loop of lines 226 to 274.
\<close>

definition null_emits :: "JobData \<Rightarrow> nat \<Rightarrow> Anomaly list" where
  "null_emits job now = (if nullViolations job = [] then [] else [nullAnomaly job now])"

definition salary_emits :: "platform \<Rightarrow> JobData \<Rightarrow> Statistics \<Rightarrow> nat \<Rightarrow> Anomaly list" where
  "salary_emits P job stats now =
     (case MaxSalary job of
        None \<Rightarrow> []
      | Some v \<Rightarrow>
          if fgt (fabs (zScore P v (AvgSalary stats) (SalaryStdDev stats))) StdDevThreshold
          then [salaryDeviationAnomaly P job stats v now] else [])"

definition rating_emits :: "platform \<Rightarrow> JobData \<Rightarrow> Statistics \<Rightarrow> nat \<Rightarrow> Anomaly list" where
  "rating_emits P job stats now =
     (if \<not> feq (CompanyRating job) (Finite 0) \<and>
         fgt (fabs (zScore P (CompanyRating job) (AvgRating stats) (RatingStdDev stats)))
           StdDevThreshold
      then [ratingDeviationAnomaly P job stats now] else [])"

definition rule_emits :: "JobData \<Rightarrow> nat \<Rightarrow> AnomalyRule \<Rightarrow> Anomaly list" where
  "rule_emits job now rule =
     (if rIsActive rule
      then (case rule_switch job rule of
              Some (True, v) \<Rightarrow> [ruleAnomaly job rule v now]
            | _ \<Rightarrow> [])
      else [])"


text \<open>
  A step of the service adds calls and leaves the clock, the jobs, the rules and the
  faults of the driver as they are. \<open>detect_calls\<close> lists the calls of one detection.
\<close>

definition extends :: "world \<Rightarrow> db_call list \<Rightarrow> world \<Rightarrow> bool" where
  "extends w cs w' =
     (calls w' = calls w @ cs \<and> clock w' = clock w \<and> jobs w' = jobs w \<and>
      anomaly_rules w' = anomaly_rules w \<and> faults w' = faults w)"

definition detect_calls :: "platform \<Rightarrow> JobData \<Rightarrow> world \<Rightarrow> db_call list" where
  "detect_calls P job w =
     map InsertAnomaly (null_emits job (clock w)) @ [SelectStatistics] @
     (case statistics_of P job w of
        Inl err \<Rightarrow> []
      | Inr stats \<Rightarrow>
          map InsertAnomaly (salary_emits P job stats (clock w)) @
          map InsertAnomaly (rating_emits P job stats (clock w)) @ [SelectRules] @
          (case rules_of P job stats w of
             Inl err \<Rightarrow> []
           | Inr rules \<Rightarrow> map InsertAnomaly (concat (map (rule_emits job (clock w)) rules))))"




text \<open>
  The detected anomalies are kept: the table of anomalies is what it was before the
  detection, followed by the anomalies collected so far.
\<close>

definition kept :: "Anomaly list \<Rightarrow> Anomaly list \<times> world \<Rightarrow> bool" where
  "kept before s = (anomalies (snd s) = before @ fst s)"


text \<open>
  An anomaly as it was before the database gave it a key, and the invariant of the
  list of detected anomalies: from call \<open>n\<close> on, the detected anomalies are, up to
  their keys and in the same order, among those handed to \<^verbatim>\<open>saveAnomaly\<close>.
\<close>

definition without_id :: "Anomaly \<Rightarrow> Anomaly" where
  "without_id a = a\<lparr>aID := None\<rparr>"

definition collected :: "nat \<Rightarrow> Anomaly list \<times> world \<Rightarrow> bool" where
  "collected n s =
     (n \<le> length (calls (snd s)) \<and>
      subseq (map without_id (fst s)) (map without_id (inserted (drop n (calls (snd s))))))"


subsection \<open>Concrete inputs\<close>

text \<open>
  A platform with exact arithmetic whose database answers the aggregate query with the
  statistics of the repository's test (mean salary 100000, deviation 50000, mean rating
  3.5, deviation 0.5), the rule that \<^verbatim>\<open>createDefaultAnomalyRules\<close> describes, with the
  metric \<^verbatim>\<open>max_salary\<close>, and the job of the rule test with a salary to choose.
\<close>

definition test_platform :: platform where
  "test_platform =
     \<lparr>round64 = Finite,
      sprintf_2f = (\<lambda>z. case z of Finite r \<Rightarrow> ''#.##'' | PosInf \<Rightarrow> ''+Inf''
                              | NegInf \<Rightarrow> ''-Inf'' | NaN \<Rightarrow> ''NaN''),
      aggregates = (\<lambda>rows. (Some (Finite 100000), Some (Finite 50000),
                             Some (Finite (7 / 2)), Some (Finite (1 / 2))))\<rparr>"

definition negative_salary_rule :: AnomalyRule where
  "negative_salary_rule =
     \<lparr>rID = 1, rName = ''Negative Salary'',
      rDescription = ''Alert if maximum salary is negative'',
      rType = AnomalyTypeMaxSalary, rOperator = LessThan, rValue = Finite 0,
      rIsActive = True, rCreatedAt = 0, rUpdatedAt = 0\<rparr>"

definition test_job_3 :: "real \<Rightarrow> JobData" where
  "test_job_3 salary =
     \<lparr>CompanyName = ''Test Company'', CompanyRating = Finite (7 / 2),
      CompanyAddress = ''Test Address'', CompanyWebsite = ''test.com'',
      JobTitle = ''Software Engineer'', JobID = ''test-job-3'', JobLink = ''test.com/job'',
      JobDescription = ''Test description'', MinSalary = None,
      MaxSalary = Some (Finite salary), City = ''Test City''\<rparr>"

text \<open>
  The row that \<^verbatim>\<open>CreateJobData\<close> stores for a job, and a database that never fails,
  holds the given rows and has made no call yet.
\<close>

definition row_of :: "JobData \<Rightarrow> job_row" where
  "row_of job =
     \<lparr>job_id = JobID job, company_name = CompanyName job,
      company_rating = Some (CompanyRating job), job_title = JobTitle job,
      min_salary = MinSalary job, max_salary = MaxSalary job\<rparr>"

definition world_of :: "job_row list \<Rightarrow> AnomalyRule list \<Rightarrow> world" where
  "world_of rows rules =
     \<lparr>jobs = rows, anomalies = [], anomaly_rules = rules, next_anomaly_id = 1,
      next_rule_id = Suc (length rules), clock = 7, calls = [], faults = (\<lambda>n. False),
      printed = []\<rparr>"


text \<open>The job of the null value test, and a database that holds it.\<close>

definition test_job_1 :: JobData where
  "test_job_1 =
     \<lparr>CompanyName = [], CompanyRating = Finite 0, CompanyAddress = [], CompanyWebsite = [],
      JobTitle = ''Software Engineer'', JobID = ''test-job-1'', JobLink = [],
      JobDescription = ''Test description'', MinSalary = None, MaxSalary = None,
      City = ''Test City''\<rparr>"

definition test_world_1 :: world where
  "test_world_1 = world_of [row_of test_job_1, row_of (test_job_3 90000)] [negative_salary_rule]"


text \<open>
  A database whose qualifying jobs all have salary 5 and rating 4, so that it answers
  the aggregate query with deviations 0; job \<open>c\<close> has no rating and does not qualify.
\<close>

definition flat_platform :: platform where
  "flat_platform =
     test_platform\<lparr>aggregates :=
       (\<lambda>rows. (Some (Finite 5), Some (Finite 0), Some (Finite 4), Some (Finite 0)))\<rparr>"

definition flat_job :: "string \<Rightarrow> real \<Rightarrow> real \<Rightarrow> JobData" where
  "flat_job name salary rating =
     \<lparr>CompanyName = ''Test Company'', CompanyRating = Finite rating,
      CompanyAddress = ''Test Address'', CompanyWebsite = ''test.com'',
      JobTitle = ''Software Engineer'', JobID = name, JobLink = ''test.com/job'',
      JobDescription = ''Test description'', MinSalary = None,
      MaxSalary = Some (Finite salary), City = ''Test City''\<rparr>"

definition flat_world :: world where
  "flat_world =
     world_of [row_of (flat_job ''a'' 5 4), row_of (flat_job ''b'' 5 4),
               row_of (flat_job ''c'' 10 0)] []"

text \<open>The job and the statistics of the deviation test.\<close>

definition test_job_2 :: JobData where
  "test_job_2 =
     \<lparr>CompanyName = ''Test Company'', CompanyRating = Finite 5,
      CompanyAddress = ''Test Address'', CompanyWebsite = ''test.com'',
      JobTitle = ''Software Engineer'', JobID = ''test-job-2'', JobLink = ''test.com/job'',
      JobDescription = ''Test description'', MinSalary = None,
      MaxSalary = Some (Finite 500000), City = ''Test City''\<rparr>"

definition test_statistics :: Statistics where
  "test_statistics =
     \<lparr>AvgSalary = Finite 100000, SalaryStdDev = Finite 50000,
      AvgRating = Finite (7 / 2), RatingStdDev = Finite (1 / 2)\<rparr>"


text \<open>
  A rule on the rating, two rules on the maximum salary created one after the other,
  and databases that hold them.
\<close>

definition low_rating_rule :: AnomalyRule where
  "low_rating_rule =
     \<lparr>rID = 2, rName = ''Low Rating'',
      rDescription = ''Alert if company rating is below 1'',
      rType = AnomalyTypeRating, rOperator = LessThan, rValue = Finite 1,
      rIsActive = True, rCreatedAt = 0, rUpdatedAt = 0\<rparr>"

definition older_rule :: AnomalyRule where
  "older_rule = negative_salary_rule\<lparr>rID := 1, rCreatedAt := 1, rUpdatedAt := 1\<rparr>"

definition newer_rule :: AnomalyRule where
  "newer_rule =
     \<lparr>rID = 2, rName = ''Low Salary'',
      rDescription = ''Alert if maximum salary is below 100'',
      rType = AnomalyTypeMaxSalary, rOperator = LessThan, rValue = Finite 100,
      rIsActive = True, rCreatedAt = 2, rUpdatedAt = 2\<rparr>"

definition two_rules_world :: world where
  "two_rules_world = world_of [row_of (test_job_3 (- 1000)), row_of (test_job_3 90000)]
                       [older_rule, newer_rule]"

definition low_rating_world :: world where
  "low_rating_world = world_of [row_of test_job_1, row_of (test_job_3 90000)] [low_rating_rule]"

definition salary_rules_world :: world where
  "salary_rules_world =
     world_of [row_of test_job_1, row_of (test_job_3 90000)]
       [negative_salary_rule,
        negative_salary_rule\<lparr>rID := 2, rName := ''Some minimum'', rType := AnomalyTypeMinSalary,
                             rOperator := GreaterThanOrEqual\<rparr>]"


text \<open>
  A rule whose metric and operator the detection does not know, and the database after
  the detection for the job of the null value test.
\<close>

definition malformed_rule :: AnomalyRule where
  "malformed_rule =
     \<lparr>rID = 0, rName = ''Odd Salary'', rDescription = ''Alert if salary is odd'',
      rType = ''salary'', rOperator = ''!='', rValue = Finite 0,
      rIsActive = True, rCreatedAt = 0, rUpdatedAt = 0\<rparr>"

definition stored_world :: world where
  "stored_world = snd (DetectAnomalies test_platform test_job_1 test_world_1)"




text \<open>
  Databases for the failures of a detection: one in which no job qualifies for the
  statistics, one whose driver fails the rule query of the detection for the job of the
  null value test, and one whose driver fails the first insert. The last job misses
  its company name and has a negative salary.
\<close>

definition unqualified_world :: world where
  "unqualified_world = world_of [row_of test_job_1] [negative_salary_rule]"

definition rules_down_world :: world where
  "rules_down_world = test_world_1\<lparr>faults := (\<lambda>n. n = 2)\<rparr>"

definition broken_job :: JobData where
  "broken_job = (test_job_3 (- 1000))\<lparr>CompanyName := []\<rparr>"

definition save_down_world :: world where
  "save_down_world =
     (world_of [row_of broken_job, row_of (test_job_3 90000)] [negative_salary_rule])
       \<lparr>faults := (\<lambda>n. n = 0)\<rparr>"


section \<open>Proofs\<close>

subsection \<open>The calls one detection makes\<close>

lemmas model_consts =
  AnomalyTypeMaxSalary_def AnomalyTypeMinSalary_def AnomalyTypeRating_def
  AnomalyTypeNullValues_def AnomalyTypeDeviation_def
  GreaterThan_def GreaterThanOrEqual_def LessThan_def LessThanOrEqual_def Equal_def


lemma extends_refl: "extends w [] w"
  by (simp add: extends_def)

lemma extends_trans: "extends w cs w1 \<Longrightarrow> extends w1 ds w2 \<Longrightarrow> extends w (cs @ ds) w2"
  by (simp add: extends_def)

lemma inserted_append: "inserted (cs @ ds) = inserted cs @ inserted ds"
  by (induction cs rule: inserted.induct) simp_all

lemma inserted_map: "inserted (map InsertAnomaly xs) = xs"
  by (induction xs) simp_all

lemma saveAnomaly_extends: "extends w [InsertAnomaly a] (snd (saveAnomaly a w))"
  by (simp add: saveAnomaly_def db_call_def extends_def Let_def)

lemma save_or_print_extends:
  "extends (snd s) [InsertAnomaly a] (snd (save_or_print line a s))"
  using saveAnomaly_extends [of "snd s" a]
  by (cases s) (auto simp: save_or_print_def extends_def split: prod.splits sum.splits)

lemma getStatistics_extends: "extends w [SelectStatistics] (snd (getStatistics P w))"
  by (simp add: getStatistics_def db_call_def extends_def Let_def split: sum.splits)

lemma GetAnomalyRules_extends: "extends w [SelectRules] (snd (GetAnomalyRules w))"
  by (simp add: GetAnomalyRules_def db_call_def extends_def Let_def)

lemma check_nulls_extends:
  "extends (snd s) (map InsertAnomaly (null_emits job (clock (snd s)))) (snd (check_nulls job s))"
  using save_or_print_extends [of s]
  by (simp add: check_nulls_def null_emits_def extends_refl)

lemma check_salary_extends:
  "extends (snd s) (map InsertAnomaly (salary_emits P job stats (clock (snd s))))
     (snd (check_salary_deviation P job stats s))"
  using save_or_print_extends [of s]
  by (simp add: check_salary_deviation_def salary_emits_def extends_refl split: option.splits)

lemma check_rating_extends:
  "extends (snd s) (map InsertAnomaly (rating_emits P job stats (clock (snd s))))
     (snd (check_rating_deviation P job stats s))"
  using save_or_print_extends [of s]
  by (simp add: check_rating_deviation_def rating_emits_def extends_refl)

lemma apply_rule_extends:
  "extends (snd s) (map InsertAnomaly (rule_emits job (clock (snd s)) rule))
     (snd (apply_rule job rule s))"
  using save_or_print_extends [of s]
  by (simp add: apply_rule_def rule_emits_def extends_refl split: option.splits prod.splits bool.splits)

lemma apply_rules_extends:
  "extends (snd s) (map InsertAnomaly (concat (map (rule_emits job (clock (snd s))) rules)))
     (snd (apply_rules job rules s))"
proof (induction rules arbitrary: s)
  case Nil
  show ?case by (simp add: extends_refl)
next
  case (Cons rule rules)
  have c: "clock (snd (apply_rule job rule s)) = clock (snd s)"
    using apply_rule_extends [of s job rule] by (simp add: extends_def)
  show ?case
    using extends_trans [OF apply_rule_extends [of s job rule] Cons.IH [of "apply_rule job rule s"]]
    by (simp add: c)
qed


lemma DetectAnomalies_fst:
  "fst (DetectAnomalies P job w) =
     (case statistics_of P job w of
        Inl err \<Rightarrow> Inl (Wrap ''error getting statistics'' err)
      | Inr stats \<Rightarrow>
          (case rules_of P job stats w of
             Inl err \<Rightarrow> Inl (Wrap ''error getting anomaly rules via service'' err)
           | Inr rules \<Rightarrow>
               Inr (fst (apply_rules job rules
                      (fst (before_rules P job stats w),
                       snd (GetAnomalyRules (snd (before_rules P job stats w))))))))"
  by (simp add: DetectAnomalies_def statistics_of_def rules_of_def before_rules_def Let_def
           split: prod.splits sum.splits)

lemma DetectAnomalies_snd:
  "snd (DetectAnomalies P job w) =
     (case statistics_of P job w of
        Inl err \<Rightarrow> snd (getStatistics P (snd (check_nulls job ([], w))))
      | Inr stats \<Rightarrow>
          (case rules_of P job stats w of
             Inl err \<Rightarrow> snd (GetAnomalyRules (snd (before_rules P job stats w)))
           | Inr rules \<Rightarrow>
               snd (apply_rules job rules
                      (fst (before_rules P job stats w),
                       snd (GetAnomalyRules (snd (before_rules P job stats w)))))))"
  by (simp add: DetectAnomalies_def statistics_of_def rules_of_def before_rules_def Let_def
           split: prod.splits sum.splits)

lemma statistics_extends:
  "extends w (map InsertAnomaly (null_emits job (clock w)) @ [SelectStatistics])
     (snd (getStatistics P (snd (check_nulls job ([], w)))))"
  using extends_trans [OF check_nulls_extends [of "([], w)" job]
          getStatistics_extends [of "snd (check_nulls job ([], w))" P]]
  by simp

lemma before_rules_extends:
  "extends w
     (map InsertAnomaly (null_emits job (clock w)) @ [SelectStatistics] @
      map InsertAnomaly (salary_emits P job stats (clock w)) @
      map InsertAnomaly (rating_emits P job stats (clock w)))
     (snd (before_rules P job stats w))"
proof -
  define s1 where "s1 = check_nulls job ([], w)"
  define w2 where "w2 = snd (getStatistics P (snd s1))"
  define s3 where "s3 = check_salary_deviation P job stats (fst s1, w2)"
  have e2: "extends w (map InsertAnomaly (null_emits job (clock w)) @ [SelectStatistics]) w2"
    using statistics_extends [of w job P] by (simp add: w2_def s1_def)
  have c2: "clock w2 = clock w" using e2 by (simp add: extends_def)
  have e3: "extends w2 (map InsertAnomaly (salary_emits P job stats (clock w))) (snd s3)"
    using check_salary_extends [of "(fst s1, w2)" P job stats] by (simp add: s3_def c2)
  have c3: "clock (snd s3) = clock w" using e3 c2 by (simp add: extends_def)
  have e4: "extends (snd s3) (map InsertAnomaly (rating_emits P job stats (clock w)))
              (snd (check_rating_deviation P job stats s3))"
    using check_rating_extends [of s3 P job stats] by (simp add: c3)
  have "before_rules P job stats w = check_rating_deviation P job stats s3"
    by (simp add: before_rules_def Let_def s1_def w2_def s3_def)
  then show ?thesis
    using extends_trans [OF extends_trans [OF e2 e3] e4] by simp
qed

lemma rules_extends:
  "extends w
     (map InsertAnomaly (null_emits job (clock w)) @ [SelectStatistics] @
      map InsertAnomaly (salary_emits P job stats (clock w)) @
      map InsertAnomaly (rating_emits P job stats (clock w)) @ [SelectRules])
     (snd (GetAnomalyRules (snd (before_rules P job stats w))))"
  using extends_trans [OF before_rules_extends [of w job P stats]
          GetAnomalyRules_extends [of "snd (before_rules P job stats w)"]]
  by simp

lemma DetectAnomalies_extends:
  "extends w (detect_calls P job w) (snd (DetectAnomalies P job w))"
proof (cases "statistics_of P job w")
  case (Inl err)
  then show ?thesis
    using statistics_extends [of w job P]
    by (simp add: DetectAnomalies_snd detect_calls_def)
next
  case (Inr stats)
  show ?thesis
  proof (cases "rules_of P job stats w")
    case (Inl err)
    then show ?thesis
      using Inr rules_extends [of w job P stats]
      by (simp add: DetectAnomalies_snd detect_calls_def)
  next
    case rs: (Inr rules)
    define w5 where "w5 = snd (GetAnomalyRules (snd (before_rules P job stats w)))"
    have e5: "extends w
       (map InsertAnomaly (null_emits job (clock w)) @ [SelectStatistics] @
        map InsertAnomaly (salary_emits P job stats (clock w)) @
        map InsertAnomaly (rating_emits P job stats (clock w)) @ [SelectRules]) w5"
      using rules_extends [of w job P stats] by (simp add: w5_def)
    have c5: "clock w5 = clock w" using e5 by (simp add: extends_def)
    have e6: "extends w5 (map InsertAnomaly (concat (map (rule_emits job (clock w)) rules)))
                (snd (apply_rules job rules (fst (before_rules P job stats w), w5)))"
      using apply_rules_extends [of "(fst (before_rules P job stats w), w5)" job rules]
      by (simp add: c5)
    show ?thesis
      using Inr rs extends_trans [OF e5 e6]
      by (simp add: DetectAnomalies_snd detect_calls_def w5_def)
  qed
qed

lemma emitted_eq:
  "emitted P job w =
     null_emits job (clock w) @
     (case statistics_of P job w of
        Inl err \<Rightarrow> []
      | Inr stats \<Rightarrow>
          salary_emits P job stats (clock w) @ rating_emits P job stats (clock w) @
          (case rules_of P job stats w of
             Inl err \<Rightarrow> []
           | Inr rules \<Rightarrow> concat (map (rule_emits job (clock w)) rules)))"
  using DetectAnomalies_extends [of w P job]
  by (simp add: emitted_def extends_def detect_calls_def inserted_append inserted_map
           split: sum.splits)

lemma rules_of_Inr:
  "rules_of P job stats w = Inr rules \<Longrightarrow> rules = order_by_created_at_desc (anomaly_rules w)"
  using before_rules_extends [of w job P stats]
  by (auto simp: rules_of_def GetAnomalyRules_def db_call_def extends_def Let_def
           split: if_splits)

lemma save_or_print_calls:
  "calls (snd (save_or_print line a s)) = calls (snd s) @ [InsertAnomaly a]"
  using save_or_print_extends [of s a line] by (simp add: extends_def)


subsection \<open>The kinds of the emitted anomalies\<close>

lemma null_emits_type: "a \<in> set (null_emits job now) \<Longrightarrow> aType a = ''null_values''"
  by (simp add: null_emits_def nullAnomaly_def model_consts split: if_splits)

lemma salary_emits_type: "a \<in> set (salary_emits P job stats now) \<Longrightarrow> aType a = ''standard_deviation''"
  by (auto simp: salary_emits_def salaryDeviationAnomaly_def model_consts split: option.splits if_splits)

lemma rating_emits_type: "a \<in> set (rating_emits P job stats now) \<Longrightarrow> aType a = ''standard_deviation''"
  by (auto simp: rating_emits_def ratingDeviationAnomaly_def model_consts split: if_splits)

lemma rule_switch_known:
  "rule_switch job rule = Some x \<Longrightarrow>
     rType rule \<in> {''max_salary'', ''min_salary'', ''company_rating''}"
  by (simp add: rule_switch_def model_consts split: if_splits)

lemma rule_emits_cases:
  "rule_emits job now rule =
     (if rIsActive rule \<and> (\<exists>v. rule_switch job rule = Some (True, v))
      then [ruleAnomaly job rule (snd (the (rule_switch job rule))) now] else [])"
  by (cases "rule_switch job rule") (auto simp: rule_emits_def split: bool.splits)

lemma rule_emits_type:
  "a \<in> set (rule_emits job now rule) \<Longrightarrow>
     aType a = rType rule \<and> rType rule \<in> {''max_salary'', ''min_salary'', ''company_rating''}"
  using rule_switch_known [of job rule]
  by (auto simp: rule_emits_cases ruleAnomaly_def split: if_splits)

lemma rules_emit_type:
  "a \<in> set (concat (map (rule_emits job now) rules)) \<Longrightarrow>
     aType a \<in> {''max_salary'', ''min_salary'', ''company_rating''}"
  using rule_emits_type by fastforce

lemma filter_none: "(\<And>x. x \<in> set xs \<Longrightarrow> \<not> Q x) \<Longrightarrow> filter Q xs = []"
  by (simp add: filter_empty_conv)

lemma filter_null_emitted:
  "filter (\<lambda>a. aType a = ''null_values'') (emitted P job w) = null_emits job (clock w)"
proof -
  have n: "filter (\<lambda>a. aType a = ''null_values'') (null_emits job (clock w)) = null_emits job (clock w)"
    by (simp add: null_emits_def nullAnomaly_def model_consts)
  have s: "filter (\<lambda>a. aType a = ''null_values'') (salary_emits P job stats (clock w)) = []" for stats
    by (rule filter_none) (auto dest: salary_emits_type)
  have r: "filter (\<lambda>a. aType a = ''null_values'') (rating_emits P job stats (clock w)) = []" for stats
    by (rule filter_none) (auto dest: rating_emits_type)
  have u: "filter (\<lambda>a. aType a = ''null_values'') (concat (map (rule_emits job (clock w)) rules)) = []" for rules
    by (rule filter_none) (use rules_emit_type in fastforce)
  show ?thesis
    by (simp add: emitted_eq n s r u split: sum.splits)
qed

lemmas detect_defs =
  DetectAnomalies_def check_nulls_def check_salary_deviation_def check_rating_deviation_def
  apply_rule_def rule_switch_def compareValues_def save_or_print_def saveAnomaly_def
  getStatistics_def statistics_row_def qualifying_def GetAnomalyRules_def
  order_by_created_at_desc_def db_call_def nullViolations_def nullAnomaly_def zScore_def
  salaryDeviationAnomaly_def ratingDeviationAnomaly_def ruleAnomaly_def StdDevThreshold_def
  fgt_def fge_def fle_def Let_def

lemma DetectAnomalies_test_job_1:
  "fst (DetectAnomalies test_platform test_job_1 test_world_1) =
     Inr [\<lparr>aID = Some 1, aType = ''null_values'', aJobID = ''test-job-1'',
            aDescription = ''Required fields are null'', aValue = Finite 0,
            aThreshold = Finite 0, aOperator = ''='', aCreatedAt = 7,
            aViolations = [''company_name'', ''company_address'', ''company_website'',
                           ''job_link'']\<rparr>]"
  by (simp add: detect_defs test_world_1_def world_of_def row_of_def test_job_1_def
        test_job_3_def test_platform_def negative_salary_rule_def model_consts)


lemma filter_salary_emitted:
  assumes "statistics_of P job w = Inr stats"
  shows "filter (\<lambda>a. aType a = ''standard_deviation'' \<and> aViolations a = [''max_salary''])
           (emitted P job w) = salary_emits P job stats (clock w)"
proof -
  let ?Q = "\<lambda>a. aType a = ''standard_deviation'' \<and> aViolations a = [''max_salary'']"
  have n: "filter ?Q (null_emits job (clock w)) = []"
    by (rule filter_none) (auto dest: null_emits_type)
  have s: "filter ?Q (salary_emits P job stats (clock w)) = salary_emits P job stats (clock w)"
    by (simp add: salary_emits_def salaryDeviationAnomaly_def model_consts split: option.splits)
  have r: "filter ?Q (rating_emits P job stats (clock w)) = []"
    by (simp add: rating_emits_def ratingDeviationAnomaly_def)
  have u: "filter ?Q (concat (map (rule_emits job (clock w)) rules)) = []" for rules
    by (rule filter_none) (use rules_emit_type in fastforce)
  show ?thesis
    by (simp add: emitted_eq assms n s r u split: sum.splits)
qed

lemma filter_rating_emitted:
  assumes "statistics_of P job w = Inr stats"
  shows "filter (\<lambda>a. aType a = ''standard_deviation'' \<and> aViolations a = [''company_rating''])
           (emitted P job w) = rating_emits P job stats (clock w)"
proof -
  let ?Q = "\<lambda>a. aType a = ''standard_deviation'' \<and> aViolations a = [''company_rating'']"
  have n: "filter ?Q (null_emits job (clock w)) = []"
    by (rule filter_none) (auto dest: null_emits_type)
  have s: "filter ?Q (salary_emits P job stats (clock w)) = []"
    by (simp add: salary_emits_def salaryDeviationAnomaly_def split: option.splits)
  have r: "filter ?Q (rating_emits P job stats (clock w)) = rating_emits P job stats (clock w)"
    by (simp add: rating_emits_def ratingDeviationAnomaly_def model_consts)
  have u: "filter ?Q (concat (map (rule_emits job (clock w)) rules)) = []" for rules
    by (rule filter_none) (use rules_emit_type in fastforce)
  show ?thesis
    by (simp add: emitted_eq assms n s r u split: sum.splits)
qed

lemma zScore_exact:
  "round64 P = Finite \<Longrightarrow> sd \<noteq> 0 \<Longrightarrow>
     fgt (fabs (zScore P (Finite v) (Finite m) (Finite sd))) StdDevThreshold =
       (3 < \<bar>(v - m) / sd\<bar>)"
  by (simp add: zScore_def fgt_def StdDevThreshold_def)

lemma zScore_zero_stddev:
  "fgt (fabs (zScore P v m (Finite 0))) StdDevThreshold =
     (fsub (round64 P) v m \<noteq> Finite 0 \<and> fsub (round64 P) v m \<noteq> NaN)"
  by (cases "fsub (round64 P) v m") (simp_all add: zScore_def fgt_def StdDevThreshold_def)

lemmas run_defs =
  detect_defs emitted_def statistics_of_def world_of_def row_of_def test_platform_def

lemma statistics_of_test_job_2:
  "statistics_of test_platform test_job_2 (world_of [row_of test_job_2] []) = Inr test_statistics"
  by (simp add: run_defs test_job_2_def test_statistics_def)

lemma world_of_clock: "clock (world_of rows rules) = 7"
  by (simp add: world_of_def)

lemma test_platform_fields:
  "round64 test_platform = Finite"
  "sprintf_2f test_platform (Finite r) = ''#.##''"
  "sprintf_2f test_platform PosInf = ''+Inf''"
  by (simp_all add: test_platform_def)

lemma test_job_2_fields:
  "MaxSalary test_job_2 = Some (Finite 500000)"
  "CompanyRating test_job_2 = Finite 5"
  "JobID test_job_2 = ''test-job-2''"
  by (simp_all add: test_job_2_def)

lemma statistics_of_flat:
  "statistics_of flat_platform (flat_job ''c'' 10 0) flat_world =
     Inr \<lparr>AvgSalary = Finite 5, SalaryStdDev = Finite 0,
          AvgRating = Finite 4, RatingStdDev = Finite 0\<rparr>"
  by (simp add: run_defs flat_platform_def flat_job_def flat_world_def)

lemma flat_fields:
  "round64 flat_platform = Finite"
  "sprintf_2f flat_platform PosInf = ''+Inf''"
  "MaxSalary (flat_job name salary rating) = Some (Finite salary)"
  "CompanyRating (flat_job name salary rating) = Finite rating"
  "JobID (flat_job name salary rating) = name"
  "clock flat_world = 7"
  by (simp_all add: flat_platform_def test_platform_def flat_job_def flat_world_def world_of_def)


lemma rule_emits_max_absent:
  "MaxSalary job = None \<Longrightarrow> a \<in> set (rule_emits job now rule) \<Longrightarrow> aType a \<noteq> ''max_salary''"
  by (auto simp: rule_emits_cases ruleAnomaly_def rule_switch_def model_consts split: if_splits)

lemma rule_emits_min_absent:
  "MinSalary job = None \<Longrightarrow> a \<in> set (rule_emits job now rule) \<Longrightarrow> aType a \<noteq> ''min_salary''"
  by (auto simp: rule_emits_cases ruleAnomaly_def rule_switch_def model_consts split: if_splits)

lemma emitted_cases:
  assumes "a \<in> set (emitted P job w)"
  shows "aType a = ''null_values'' \<or> aType a = ''standard_deviation'' \<or>
         (\<exists>rule. a \<in> set (rule_emits job (clock w) rule))"
  using assms null_emits_type [of a job "clock w"] salary_emits_type [of a P job _ "clock w"]
    rating_emits_type [of a P job _ "clock w"]
  by (auto simp: emitted_eq split: sum.splits)

lemma order_by_created_at_desc_sorted:
  "sorted (rev (map rCreatedAt (order_by_created_at_desc rows)))"
  by (simp add: order_by_created_at_desc_def rev_map [symmetric])

lemma order_by_created_at_desc_mset:
  "mset (order_by_created_at_desc rows) = mset rows"
  by (simp add: order_by_created_at_desc_def)

lemma filter_rule_emitted:
  assumes "statistics_of P job w = Inr stats" and "rules_of P job stats w = Inr rules"
  shows "filter (\<lambda>a. aType a \<in> {''max_salary'', ''min_salary'', ''company_rating''})
           (emitted P job w) = concat (map (rule_emits job (clock w)) rules)"
proof -
  let ?Q = "\<lambda>a. aType a \<in> {''max_salary'', ''min_salary'', ''company_rating''}"
  have n: "filter ?Q (null_emits job (clock w)) = []"
    by (rule filter_none) (auto dest: null_emits_type)
  have s: "filter ?Q (salary_emits P job stats (clock w)) = []"
    by (rule filter_none) (auto dest: salary_emits_type)
  have r: "filter ?Q (rating_emits P job stats (clock w)) = []"
    by (rule filter_none) (auto dest: rating_emits_type)
  have u: "filter ?Q (concat (map (rule_emits job (clock w)) rules)) =
             concat (map (rule_emits job (clock w)) rules)"
    using rules_emit_type [of _ job "clock w" rules] by (simp add: filter_id_conv)
  show ?thesis
    by (simp only: emitted_eq assms sum.case filter_append n s r u append_Nil append_Nil2)
qed

lemma DetectAnomalies_Inr:
  assumes "fst (DetectAnomalies P job w) = Inr found"
  obtains stats where "statistics_of P job w = Inr stats"
    and "rules_of P job stats w = Inr (order_by_created_at_desc (anomaly_rules w))"
proof -
  obtain stats where st: "statistics_of P job w = Inr stats"
    using assms by (cases "statistics_of P job w") (simp_all add: DetectAnomalies_fst)
  obtain rules where rs: "rules_of P job stats w = Inr rules"
    using assms st by (cases "rules_of P job stats w") (simp_all add: DetectAnomalies_fst)
  show thesis
    using that [OF st] rs rules_of_Inr [OF rs] by simp
qed

lemma two_rules_run:
  "fst (DetectAnomalies test_platform (test_job_3 (- 1000)) two_rules_world) =
     Inr [\<lparr>aID = Some 1, aType = ''max_salary'', aJobID = ''test-job-3'',
            aDescription = ''Alert if maximum salary is below 100'', aValue = Finite (- 1000),
            aThreshold = Finite 100, aOperator = ''<'', aCreatedAt = 7, aViolations = []\<rparr>,
          \<lparr>aID = Some 2, aType = ''max_salary'', aJobID = ''test-job-3'',
            aDescription = ''Alert if maximum salary is negative'', aValue = Finite (- 1000),
            aThreshold = Finite 0, aOperator = ''<'', aCreatedAt = 7, aViolations = []\<rparr>]"
  by (simp add: run_defs test_job_3_def two_rules_world_def older_rule_def newer_rule_def
        negative_salary_rule_def model_consts)



subsection \<open>Rules and stored anomalies\<close>

lemma IsValidOperator_iff:
  "IsValidOperator op = (op \<in> {''>'', ''>='', ''<'', ''<='', ''=''})"
  by (auto simp: IsValidOperator_def ValidOperators_def model_consts)

lemma compareValues_invalid: "\<not> IsValidOperator op \<Longrightarrow> compareValues v t op = False"
  by (simp add: IsValidOperator_iff compareValues_def model_consts)

lemma apply_rule_unknown_metric:
  "rType rule \<notin> {''max_salary'', ''min_salary'', ''company_rating''} \<Longrightarrow> apply_rule job rule s = s"
  by (simp add: apply_rule_def rule_switch_def model_consts)

lemma apply_rule_invalid_operator:
  "\<not> IsValidOperator (rOperator rule) \<Longrightarrow> apply_rule job rule s = s"
  by (simp add: apply_rule_def rule_switch_def compareValues_invalid split: option.splits)

lemma stored_world_anomalies:
  "anomalies stored_world =
     [\<lparr>aID = Some 1, aType = ''null_values'', aJobID = ''test-job-1'',
       aDescription = ''Required fields are null'', aValue = Finite 0,
       aThreshold = Finite 0, aOperator = ''='', aCreatedAt = 7,
       aViolations = [''company_name'', ''company_address'', ''company_website'',
                      ''job_link'']\<rparr>]"
  "faults stored_world = (\<lambda>n. False)"
  by (simp_all add: stored_world_def detect_defs test_world_1_def world_of_def row_of_def
        test_job_1_def test_job_3_def test_platform_def negative_salary_rule_def model_consts)



subsection \<open>The run over all jobs\<close>










subsection \<open>What a detection returns and stores\<close>

lemma save_or_print_kept: "kept before s \<Longrightarrow> kept before (save_or_print line a s)"
  by (cases s)
     (auto simp: kept_def save_or_print_def saveAnomaly_def db_call_def Let_def
           split: prod.splits sum.splits if_splits)

lemma check_nulls_kept: "kept before s \<Longrightarrow> kept before (check_nulls job s)"
  by (simp add: check_nulls_def save_or_print_kept)

lemma check_salary_kept: "kept before s \<Longrightarrow> kept before (check_salary_deviation P job stats s)"
  by (simp add: check_salary_deviation_def save_or_print_kept split: option.splits)

lemma check_rating_kept: "kept before s \<Longrightarrow> kept before (check_rating_deviation P job stats s)"
  by (simp add: check_rating_deviation_def save_or_print_kept)

lemma apply_rule_kept: "kept before s \<Longrightarrow> kept before (apply_rule job rule s)"
  by (simp add: apply_rule_def save_or_print_kept split: option.splits prod.splits)

lemma apply_rules_kept: "kept before s \<Longrightarrow> kept before (apply_rules job rules s)"
  by (induction rules arbitrary: s) (simp_all add: apply_rule_kept)

lemma getStatistics_anomalies: "anomalies (snd (getStatistics P w)) = anomalies w"
  by (simp add: getStatistics_def db_call_def Let_def split: sum.splits)

lemma GetAnomalyRules_anomalies: "anomalies (snd (GetAnomalyRules w)) = anomalies w"
  by (simp add: GetAnomalyRules_def db_call_def Let_def)

lemma nulls_kept: "kept (anomalies w) (check_nulls job ([], w))"
  by (rule check_nulls_kept) (simp add: kept_def)

lemma before_rules_kept: "kept (anomalies w) (before_rules P job stats w)"
proof -
  have "kept (anomalies w)
          (fst (check_nulls job ([], w)), snd (getStatistics P (snd (check_nulls job ([], w)))))"
    using nulls_kept [of w job] by (simp add: kept_def getStatistics_anomalies)
  then show ?thesis
    by (simp add: before_rules_def Let_def check_rating_kept check_salary_kept)
qed

lemma DetectAnomalies_kept:
  assumes "statistics_of P job w = Inr stats" and "rules_of P job stats w = Inr rules"
  shows "fst (DetectAnomalies P job w) =
           Inr (drop (length (anomalies w)) (anomalies (snd (DetectAnomalies P job w))))"
proof -
  define s6 where "s6 = apply_rules job rules
     (fst (before_rules P job stats w), snd (GetAnomalyRules (snd (before_rules P job stats w))))"
  have "kept (anomalies w)
          (fst (before_rules P job stats w),
           snd (GetAnomalyRules (snd (before_rules P job stats w))))"
    using before_rules_kept [of w P job stats] by (simp add: kept_def GetAnomalyRules_anomalies)
  then have "kept (anomalies w) s6"
    unfolding s6_def by (rule apply_rules_kept)
  then have "anomalies (snd s6) = anomalies w @ fst s6"
    by (simp add: kept_def)
  moreover have "fst (DetectAnomalies P job w) = Inr (fst s6)"
    by (simp add: DetectAnomalies_fst assms s6_def)
  moreover have "snd (DetectAnomalies P job w) = snd s6"
    by (simp add: DetectAnomalies_snd assms s6_def)
  ultimately show ?thesis by simp
qed

lemma DetectAnomalies_grows:
  "take (length (anomalies w)) (anomalies (snd (DetectAnomalies P job w))) = anomalies w"
proof (cases "statistics_of P job w")
  case (Inl err)
  then show ?thesis
    using nulls_kept [of w job]
    by (simp add: DetectAnomalies_snd getStatistics_anomalies kept_def)
next
  case (Inr stats)
  show ?thesis
  proof (cases "rules_of P job stats w")
    case (Inl err)
    then show ?thesis
      using Inr before_rules_kept [of w P job stats]
      by (simp add: DetectAnomalies_snd GetAnomalyRules_anomalies kept_def)
  next
    case rs: (Inr rules)
    have "kept (anomalies w)
          (fst (before_rules P job stats w),
           snd (GetAnomalyRules (snd (before_rules P job stats w))))"
      using before_rules_kept [of w P job stats] by (simp add: kept_def GetAnomalyRules_anomalies)
    from apply_rules_kept [OF this, of job rules] show ?thesis
      using Inr rs by (simp add: DetectAnomalies_snd kept_def)
  qed
qed

lemma no_qualifying_no_statistics:
  "filter qualifying (jobs w) = [] \<Longrightarrow>
     statistics_of P job w = Inl (Wrap ''error getting statistics'' DriverError) \<or>
     statistics_of P job w = Inl (Wrap ''error getting statistics'' ScanNull)"
  using check_nulls_extends [of "([], w)" job]
  by (simp add: statistics_of_def getStatistics_def db_call_def statistics_row_def Let_def
        extends_def)

lemma unqualified_run:
  "filter qualifying (jobs unqualified_world) = []"
  "statistics_of test_platform test_job_1 unqualified_world =
     Inl (Wrap ''error getting statistics'' ScanNull)"
  by (simp_all add: run_defs unqualified_world_def test_job_1_def)

lemma rules_down_run:
  "statistics_of test_platform test_job_1 rules_down_world = Inr test_statistics"
  "rules_of test_platform test_job_1 test_statistics rules_down_world =
     Inl (Wrap ''error querying anomaly rules'' DriverError)"
  "anomalies rules_down_world = []"
  "map aType (anomalies (snd (DetectAnomalies test_platform test_job_1 rules_down_world))) =
     [''null_values'']"
  by (simp_all add: rules_of_def before_rules_def run_defs rules_down_world_def test_world_1_def
        test_job_1_def test_job_3_def test_statistics_def negative_salary_rule_def model_consts)

lemma save_down_run:
  "statistics_of test_platform broken_job save_down_world = Inr test_statistics"
  "rules_of test_platform broken_job test_statistics save_down_world =
     Inr [negative_salary_rule]"
  "anomalies save_down_world = []"
  "printed (snd (DetectAnomalies test_platform broken_job save_down_world)) =
     [SaveNullFailed ''test-job-3'' (Wrap ''error inserting anomaly'' DriverError)]"
  "map aType (anomalies (snd (DetectAnomalies test_platform broken_job save_down_world))) =
     [''max_salary'']"
  by (simp_all add: rules_of_def before_rules_def run_defs save_down_world_def broken_job_def
        test_job_3_def test_statistics_def negative_salary_rule_def model_consts)


lemma collected_start: "collected (length (calls w)) ([], w)"
  by (simp add: collected_def)

lemma save_or_print_collected:
  assumes "collected n s"
  shows "collected n (save_or_print line a s)"
proof -
  obtain d w where s: "s = (d, w)" by (cases s)
  have n: "n \<le> length (calls w)"
    and sub: "subseq (map without_id d) (map without_id (inserted (drop n (calls w))))"
    using assms by (simp_all add: collected_def s)
  have c: "calls (snd (save_or_print line a s)) = calls w @ [InsertAnomaly a]"
    by (simp add: save_or_print_calls s)
  have i: "map without_id (inserted (drop n (calls (snd (save_or_print line a s))))) =
             map without_id (inserted (drop n (calls w))) @ [without_id a]"
    using n by (simp add: c inserted_append)
  have "fst (save_or_print line a s) = d \<or>
        (\<exists>k. fst (save_or_print line a s) = d @ [a\<lparr>aID := Some k\<rparr>])"
    by (auto simp: save_or_print_def saveAnomaly_def db_call_def Let_def s
             split: prod.splits sum.splits if_splits)
  then have "subseq (map without_id (fst (save_or_print line a s)))
               (map without_id (inserted (drop n (calls w))) @ [without_id a])"
  proof
    assume "fst (save_or_print line a s) = d"
    then show ?thesis
      using sub by (simp add: subseq_rev_drop_many)
  next
    assume "\<exists>k. fst (save_or_print line a s) = d @ [a\<lparr>aID := Some k\<rparr>]"
    then obtain k where k: "fst (save_or_print line a s) = d @ [a\<lparr>aID := Some k\<rparr>]" ..
    have "subseq (map without_id d @ [without_id a])
            (map without_id (inserted (drop n (calls w))) @ [without_id a])"
      using sub by (intro list_emb_append_mono) simp_all
    then show ?thesis
      by (simp add: k without_id_def)
  qed
  moreover have "n \<le> length (calls (snd (save_or_print line a s)))"
    using n by (simp add: c)
  ultimately show ?thesis
    unfolding collected_def i by simp
qed

lemma check_nulls_collected: "collected n s \<Longrightarrow> collected n (check_nulls job s)"
  by (simp add: check_nulls_def save_or_print_collected)

lemma check_salary_collected:
  "collected n s \<Longrightarrow> collected n (check_salary_deviation P job stats s)"
  by (simp add: check_salary_deviation_def save_or_print_collected split: option.splits)

lemma check_rating_collected:
  "collected n s \<Longrightarrow> collected n (check_rating_deviation P job stats s)"
  by (simp add: check_rating_deviation_def save_or_print_collected)

lemma apply_rule_collected: "collected n s \<Longrightarrow> collected n (apply_rule job rule s)"
  by (simp add: apply_rule_def save_or_print_collected split: option.splits prod.splits)

lemma apply_rules_collected: "collected n s \<Longrightarrow> collected n (apply_rules job rules s)"
  by (induction rules arbitrary: s) (simp_all add: apply_rule_collected)

lemma query_collected:
  assumes "collected n s" and "extends (snd s) [c] w'" and "inserted [c] = []"
  shows "collected n (fst s, w')"
  using assms by (simp add: collected_def extends_def inserted_append)

lemma before_rules_collected: "collected (length (calls w)) (before_rules P job stats w)"
proof -
  have "collected (length (calls w))
          (fst (check_nulls job ([], w)), snd (getStatistics P (snd (check_nulls job ([], w)))))"
    by (rule query_collected [OF check_nulls_collected [OF collected_start]
          getStatistics_extends]) simp
  then show ?thesis
    by (simp add: before_rules_def Let_def check_rating_collected check_salary_collected)
qed

lemma DetectAnomalies_collected:
  assumes "fst (DetectAnomalies P job w) = Inr found"
  shows "subseq (map without_id found) (map without_id (emitted P job w))"
proof -
  obtain stats where st: "statistics_of P job w = Inr stats"
    and rs: "rules_of P job stats w = Inr (order_by_created_at_desc (anomaly_rules w))"
    using DetectAnomalies_Inr [OF assms] by blast
  define s6 where "s6 = apply_rules job (order_by_created_at_desc (anomaly_rules w))
     (fst (before_rules P job stats w), snd (GetAnomalyRules (snd (before_rules P job stats w))))"
  have "collected (length (calls w))
          (fst (before_rules P job stats w),
           snd (GetAnomalyRules (snd (before_rules P job stats w))))"
    by (rule query_collected [OF before_rules_collected GetAnomalyRules_extends]) simp
  then have "collected (length (calls w)) s6"
    unfolding s6_def by (rule apply_rules_collected)
  moreover have "fst (DetectAnomalies P job w) = Inr (fst s6)"
    by (simp add: DetectAnomalies_fst st rs s6_def)
  moreover have "snd (DetectAnomalies P job w) = snd s6"
    by (simp add: DetectAnomalies_snd st rs s6_def)
  ultimately show ?thesis
    using assms by (simp add: collected_def emitted_def)
qed


lemma emitted_no_id: "a \<in> set (emitted P job w) \<Longrightarrow> aID a = None"
  by (auto simp: emitted_eq null_emits_def salary_emits_def rating_emits_def rule_emits_cases
        nullAnomaly_def salaryDeviationAnomaly_def ratingDeviationAnomaly_def ruleAnomaly_def
        split: sum.splits option.splits if_splits)

lemma returned_emitted:
  assumes "fst (DetectAnomalies P job w) = Inr found"
  shows "subseq (map without_id found) (emitted P job w)"
proof -
  have "map without_id (emitted P job w) = emitted P job w"
    by (rule map_idI) (simp add: without_id_def emitted_no_id)
  then show ?thesis
    using DetectAnomalies_collected [OF assms] by simp
qed

section \<open>The claims\<close>

text \<open>
  C1, as stated, fails: an error of the statistics query ends the detection. For a job
  with empty required fields in a database where no job qualifies for the statistics,
  the anomaly for the empty fields is stored, the aggregates are \<^verbatim>\<open>NULL\<close>, and
  \<^verbatim>\<open>DetectAnomalies\<close> returns the error and no anomaly, without fetching the rules.
\<close>

theorem detect_fails_counterexample:
  "fst (DetectAnomalies test_platform test_job_1 unqualified_world) =
     Inl (Wrap ''error getting statistics'' (Wrap ''error getting statistics'' ScanNull)) \<and>
   anomalies (snd (DetectAnomalies test_platform test_job_1 unqualified_world)) =
     [\<lparr>aID = Some 1, aType = ''null_values'', aJobID = ''test-job-1'',
       aDescription = ''Required fields are null'', aValue = Finite 0,
       aThreshold = Finite 0, aOperator = ''='', aCreatedAt = 7,
       aViolations = [''company_name'', ''company_address'', ''company_website'',
                      ''job_link'']\<rparr>] \<and>
   SelectRules \<notin> set (calls (snd (DetectAnomalies test_platform test_job_1 unqualified_world)))"
  by (simp add: run_defs unqualified_world_def test_job_1_def negative_salary_rule_def
        model_consts)

text \<open>
  C1, amended. A detection fails exactly when its statistics query or its rule fetch
  fails, and then returns the error and no anomaly: after a failed statistics query
  only the anomaly for the empty fields has been emitted, after a failed rule fetch only
  that one and the deviation anomalies; the rows stored before the failure stay in the
  table. When both succeed the detection succeeds, whatever happens to the inserts, and
  returns exactly the rows it added to the table of anomalies, which are, up to their
  keys and in the same order, among the anomalies it emitted. When no job qualifies for
  the statistics, the statistics query fails.
\<close>

theorem detect_failure_policy:
  "(statistics_of P job w = Inl err \<longrightarrow>
      fst (DetectAnomalies P job w) = Inl (Wrap ''error getting statistics'' err) \<and>
      emitted P job w = null_emits job (clock w)) \<and>
   (statistics_of P job w = Inr stats \<and> rules_of P job stats w = Inl err \<longrightarrow>
      fst (DetectAnomalies P job w) =
        Inl (Wrap ''error getting anomaly rules via service'' err) \<and>
      emitted P job w =
        null_emits job (clock w) @ salary_emits P job stats (clock w) @
        rating_emits P job stats (clock w)) \<and>
   (statistics_of P job w = Inr stats \<and> rules_of P job stats w = Inr rules \<longrightarrow>
      fst (DetectAnomalies P job w) =
        Inr (drop (length (anomalies w)) (anomalies (snd (DetectAnomalies P job w))))) \<and>
   (fst (DetectAnomalies P job w) = Inr found \<longrightarrow>
      subseq (map without_id found) (emitted P job w)) \<and>
   take (length (anomalies w)) (anomalies (snd (DetectAnomalies P job w))) = anomalies w \<and>
   (filter qualifying (jobs w) = [] \<longrightarrow> (\<exists>e. statistics_of P job w = Inl e))"
proof -
  have 1: "statistics_of P job w = Inl err \<longrightarrow>
      fst (DetectAnomalies P job w) = Inl (Wrap ''error getting statistics'' err) \<and>
      emitted P job w = null_emits job (clock w)"
    by (simp add: DetectAnomalies_fst emitted_eq)
  have 2: "statistics_of P job w = Inr stats \<and> rules_of P job stats w = Inl err \<longrightarrow>
      fst (DetectAnomalies P job w) =
        Inl (Wrap ''error getting anomaly rules via service'' err) \<and>
      emitted P job w =
        null_emits job (clock w) @ salary_emits P job stats (clock w) @
        rating_emits P job stats (clock w)"
    by (simp add: DetectAnomalies_fst emitted_eq)
  have 3: "statistics_of P job w = Inr stats \<and> rules_of P job stats w = Inr rules \<longrightarrow>
      fst (DetectAnomalies P job w) =
        Inr (drop (length (anomalies w)) (anomalies (snd (DetectAnomalies P job w))))"
    using DetectAnomalies_kept [of P job w stats rules] by blast
  have 5: "filter qualifying (jobs w) = [] \<longrightarrow> (\<exists>e. statistics_of P job w = Inl e)"
    using no_qualifying_no_statistics [of w P job] by blast
  have 6: "fst (DetectAnomalies P job w) = Inr found \<longrightarrow>
      subseq (map without_id found) (emitted P job w)"
    using returned_emitted [of P job w found] by blast
  show ?thesis
    using 1 2 3 5 6 DetectAnomalies_grows [of w P job] by blast
qed


theorem detect_failure_policy_witness:
  "filter qualifying (jobs unqualified_world) = [] \<and>
   statistics_of test_platform test_job_1 unqualified_world =
     Inl (Wrap ''error getting statistics'' ScanNull) \<and>
   fst (DetectAnomalies test_platform test_job_1 unqualified_world) =
     Inl (Wrap ''error getting statistics'' (Wrap ''error getting statistics'' ScanNull)) \<and>
   statistics_of test_platform test_job_1 rules_down_world = Inr test_statistics \<and>
   rules_of test_platform test_job_1 test_statistics rules_down_world =
     Inl (Wrap ''error querying anomaly rules'' DriverError) \<and>
   fst (DetectAnomalies test_platform test_job_1 rules_down_world) =
     Inl (Wrap ''error getting anomaly rules via service''
            (Wrap ''error querying anomaly rules'' DriverError)) \<and>
   map aType (anomalies (snd (DetectAnomalies test_platform test_job_1 rules_down_world))) =
     [''null_values''] \<and>
   statistics_of test_platform broken_job save_down_world = Inr test_statistics \<and>
   rules_of test_platform broken_job test_statistics save_down_world =
     Inr [negative_salary_rule] \<and>
   printed (snd (DetectAnomalies test_platform broken_job save_down_world)) =
     [SaveNullFailed ''test-job-3'' (Wrap ''error inserting anomaly'' DriverError)] \<and>
   fst (DetectAnomalies test_platform broken_job save_down_world) =
     Inr (anomalies (snd (DetectAnomalies test_platform broken_job save_down_world))) \<and>
   map aType (anomalies (snd (DetectAnomalies test_platform broken_job save_down_world))) =
     [''max_salary'']"
  using unqualified_run rules_down_run save_down_run
    detect_failure_policy [of test_platform test_job_1 unqualified_world
      "Wrap ''error getting statistics'' ScanNull"]
    detect_failure_policy [of test_platform test_job_1 rules_down_world
      "Wrap ''error querying anomaly rules'' DriverError" test_statistics]
    detect_failure_policy [of test_platform broken_job save_down_world _ test_statistics
      "[negative_salary_rule]"]
  by simp


text \<open>
  C2, as stated, fails: the division by the standard deviation is not guarded. With a
  deviation of 0, mean 5 and a job whose maximum salary is 10, the z-score is +Inf and
  the detection emits, stores and returns a deviation anomaly.
\<close>

theorem zero_stddev_counterexample:
  "statistics_of flat_platform (flat_job ''c'' 10 0) flat_world =
     Inr \<lparr>AvgSalary = Finite 5, SalaryStdDev = Finite 0,
          AvgRating = Finite 4, RatingStdDev = Finite 0\<rparr> \<and>
   emitted flat_platform (flat_job ''c'' 10 0) flat_world =
     [\<lparr>aID = None, aType = ''standard_deviation'', aJobID = ''c'',
       aDescription = ''Salary deviates significantly from mean (z-score: +Inf)'',
       aValue = Finite 10, aThreshold = Finite 5, aOperator = ''='',
       aCreatedAt = 7, aViolations = [''max_salary'']\<rparr>] \<and>
   fst (DetectAnomalies flat_platform (flat_job ''c'' 10 0) flat_world) =
     Inr [\<lparr>aID = Some 1, aType = ''standard_deviation'', aJobID = ''c'',
            aDescription = ''Salary deviates significantly from mean (z-score: +Inf)'',
            aValue = Finite 10, aThreshold = Finite 5, aOperator = ''='',
            aCreatedAt = 7, aViolations = [''max_salary'']\<rparr>]"
  by (simp add: run_defs flat_platform_def flat_job_def flat_world_def model_consts)

text \<open>
  C2, amended. When the standard deviation of a metric is 0, a deviation anomaly for the
  metric is emitted exactly when the job sets the metric and the computed difference
  between its value and the mean is neither 0 nor NaN (the z-score is then infinite);
  it is not emitted when the difference is 0 (the z-score is then NaN). With exact
  arithmetic and finite values the difference is 0 exactly when the value equals the
  mean.
\<close>

theorem zero_stddev_unguarded:
  assumes "statistics_of P job w = Inr stats"
  shows
    "(SalaryStdDev stats = Finite 0 \<longrightarrow>
        filter (\<lambda>a. aType a = ''standard_deviation'' \<and> aViolations a = [''max_salary''])
          (emitted P job w) =
          (case MaxSalary job of
             None \<Rightarrow> []
           | Some v \<Rightarrow>
               if fsub (round64 P) v (AvgSalary stats) \<noteq> Finite 0 \<and>
                  fsub (round64 P) v (AvgSalary stats) \<noteq> NaN
               then [salaryDeviationAnomaly P job stats v (clock w)] else [])) \<and>
     (RatingStdDev stats = Finite 0 \<longrightarrow>
        filter (\<lambda>a. aType a = ''standard_deviation'' \<and> aViolations a = [''company_rating''])
          (emitted P job w) =
          (if \<not> feq (CompanyRating job) (Finite 0) \<and>
              fsub (round64 P) (CompanyRating job) (AvgRating stats) \<noteq> Finite 0 \<and>
              fsub (round64 P) (CompanyRating job) (AvgRating stats) \<noteq> NaN
           then [ratingDeviationAnomaly P job stats (clock w)] else [])) \<and>
     (round64 P = Finite \<longrightarrow>
        (fsub (round64 P) (Finite x) (Finite m) \<noteq> Finite 0 \<and>
         fsub (round64 P) (Finite x) (Finite m) \<noteq> NaN) = (x \<noteq> m))"
proof -
  have 1: "SalaryStdDev stats = Finite 0 \<longrightarrow>
        filter (\<lambda>a. aType a = ''standard_deviation'' \<and> aViolations a = [''max_salary''])
          (emitted P job w) =
          (case MaxSalary job of
             None \<Rightarrow> []
           | Some v \<Rightarrow>
               if fsub (round64 P) v (AvgSalary stats) \<noteq> Finite 0 \<and>
                  fsub (round64 P) v (AvgSalary stats) \<noteq> NaN
               then [salaryDeviationAnomaly P job stats v (clock w)] else [])"
    by (simp add: filter_salary_emitted [OF assms] salary_emits_def zScore_zero_stddev
          split: option.splits)
  have 2: "RatingStdDev stats = Finite 0 \<longrightarrow>
        filter (\<lambda>a. aType a = ''standard_deviation'' \<and> aViolations a = [''company_rating''])
          (emitted P job w) =
          (if \<not> feq (CompanyRating job) (Finite 0) \<and>
              fsub (round64 P) (CompanyRating job) (AvgRating stats) \<noteq> Finite 0 \<and>
              fsub (round64 P) (CompanyRating job) (AvgRating stats) \<noteq> NaN
           then [ratingDeviationAnomaly P job stats (clock w)] else [])"
    by (simp add: filter_rating_emitted [OF assms] rating_emits_def zScore_zero_stddev)
  have 3: "round64 P = Finite \<longrightarrow>
        (fsub (round64 P) (Finite x) (Finite m) \<noteq> Finite 0 \<and>
         fsub (round64 P) (Finite x) (Finite m) \<noteq> NaN) = (x \<noteq> m)"
    by simp
  show ?thesis using 1 2 3 by blast
qed

theorem zero_stddev_unguarded_witness:
  "statistics_of flat_platform (flat_job ''c'' 10 0) flat_world =
     Inr \<lparr>AvgSalary = Finite 5, SalaryStdDev = Finite 0,
          AvgRating = Finite 4, RatingStdDev = Finite 0\<rparr> \<and>
   round64 flat_platform = Finite \<and>
   filter (\<lambda>a. aType a = ''standard_deviation'' \<and> aViolations a = [''max_salary''])
     (emitted flat_platform (flat_job ''c'' 10 0) flat_world) =
     [\<lparr>aID = None, aType = ''standard_deviation'', aJobID = ''c'',
       aDescription = ''Salary deviates significantly from mean (z-score: +Inf)'',
       aValue = Finite 10, aThreshold = Finite 5, aOperator = ''='',
       aCreatedAt = 7, aViolations = [''max_salary'']\<rparr>] \<and>
   filter (\<lambda>a. aType a = ''standard_deviation'' \<and> aViolations a = [''company_rating''])
     (emitted flat_platform (flat_job ''c'' 10 0) flat_world) = []"
  using zero_stddev_unguarded [OF statistics_of_flat]
  by (simp add: statistics_of_flat flat_fields salaryDeviationAnomaly_def zScore_def
        model_consts)


text \<open>
  C3. An anomaly is emitted when \<^verbatim>\<open>DetectAnomalies\<close> hands it to \<^verbatim>\<open>saveAnomaly\<close>.
  Whatever the state of the database, a detection emits exactly one anomaly of type
  \<^verbatim>\<open>null_values\<close> for a job with an empty required field, with value 0, threshold 0,
  operator \<^verbatim>\<open>=\<close> and, as violations, the names of the empty fields among the seven
  required ones in the order of their definition; it emits none for a job whose seven
  required fields are all non-empty. The anomalies of that type which a successful
  detection returns are, up to the key, among those emitted: that one at most, and none
  for a job with no empty required field.
\<close>

theorem null_values_finding:
  "filter (\<lambda>a. aType a = ''null_values'') (emitted P job w) =
     (if nullViolations job = [] then []
      else [\<lparr>aID = None, aType = ''null_values'', aJobID = JobID job,
             aDescription = ''Required fields are null'', aValue = Finite 0,
             aThreshold = Finite 0, aOperator = ''='', aCreatedAt = clock w,
             aViolations = nullViolations job\<rparr>]) \<and>
   nullViolations job =
     map fst (filter (\<lambda>field. snd field = [])
       [(''company_name'', CompanyName job), (''job_title'', JobTitle job),
        (''job_description'', JobDescription job), (''city'', City job),
        (''company_address'', CompanyAddress job), (''company_website'', CompanyWebsite job),
        (''job_link'', JobLink job)]) \<and>
   (nullViolations job = []) =
     (CompanyName job \<noteq> [] \<and> JobTitle job \<noteq> [] \<and> JobDescription job \<noteq> [] \<and> City job \<noteq> [] \<and>
      CompanyAddress job \<noteq> [] \<and> CompanyWebsite job \<noteq> [] \<and> JobLink job \<noteq> []) \<and>
   (fst (DetectAnomalies P job w) = Inr found \<longrightarrow>
      subseq (filter (\<lambda>a. aType a = ''null_values'') (map without_id found))
        (filter (\<lambda>a. aType a = ''null_values'') (emitted P job w)))"
proof -
  have 1: "filter (\<lambda>a. aType a = ''null_values'') (emitted P job w) =
     (if nullViolations job = [] then []
      else [\<lparr>aID = None, aType = ''null_values'', aJobID = JobID job,
             aDescription = ''Required fields are null'', aValue = Finite 0,
             aThreshold = Finite 0, aOperator = ''='', aCreatedAt = clock w,
             aViolations = nullViolations job\<rparr>])"
    by (simp add: filter_null_emitted null_emits_def nullAnomaly_def model_consts)
  have 2: "nullViolations job =
     map fst (filter (\<lambda>field. snd field = [])
       [(''company_name'', CompanyName job), (''job_title'', JobTitle job),
        (''job_description'', JobDescription job), (''city'', City job),
        (''company_address'', CompanyAddress job), (''company_website'', CompanyWebsite job),
        (''job_link'', JobLink job)])"
    by (simp add: nullViolations_def)
  have 3: "(nullViolations job = []) =
     (CompanyName job \<noteq> [] \<and> JobTitle job \<noteq> [] \<and> JobDescription job \<noteq> [] \<and> City job \<noteq> [] \<and>
      CompanyAddress job \<noteq> [] \<and> CompanyWebsite job \<noteq> [] \<and> JobLink job \<noteq> [])"
    by (simp add: nullViolations_def)
  have 4: "fst (DetectAnomalies P job w) = Inr found \<longrightarrow>
      subseq (filter (\<lambda>a. aType a = ''null_values'') (map without_id found))
        (filter (\<lambda>a. aType a = ''null_values'') (emitted P job w))"
    using returned_emitted [of P job w found] by (simp add: subseq_filter)
  show ?thesis using 1 2 3 4 by blast
qed


theorem null_values_finding_witness:
  "filter (\<lambda>a. aType a = ''null_values'') (emitted test_platform test_job_1 test_world_1) =
     [\<lparr>aID = None, aType = ''null_values'', aJobID = ''test-job-1'',
       aDescription = ''Required fields are null'', aValue = Finite 0,
       aThreshold = Finite 0, aOperator = ''='', aCreatedAt = 7,
       aViolations = [''company_name'', ''company_address'', ''company_website'',
                      ''job_link'']\<rparr>] \<and>
   fst (DetectAnomalies test_platform test_job_1 test_world_1) =
     Inr [\<lparr>aID = Some 1, aType = ''null_values'', aJobID = ''test-job-1'',
            aDescription = ''Required fields are null'', aValue = Finite 0,
            aThreshold = Finite 0, aOperator = ''='', aCreatedAt = 7,
            aViolations = [''company_name'', ''company_address'', ''company_website'',
                           ''job_link'']\<rparr>] \<and>
   filter (\<lambda>a. aType a = ''null_values'')
     (emitted test_platform (test_job_3 90000) test_world_1) = []"
  using null_values_finding [of test_platform test_job_1 test_world_1]
    null_values_finding [of test_platform "test_job_3 90000" test_world_1]
    DetectAnomalies_test_job_1
  by (simp add: test_job_1_def test_job_3_def test_world_1_def world_of_def)

text \<open>
  C4. When the statistics query of a detection succeeds, the detection emits one
  deviation anomaly for \<^verbatim>\<open>max_salary\<close> exactly when the job sets the maximum salary
  \<open>v\<close> and the absolute value of the z-score, the float64 value of \<open>(v - mean) / stddev\<close>,
  is strictly greater than 3; the anomaly names the one field, with value \<open>v\<close> and
  threshold the mean. The same holds for \<^verbatim>\<open>company_rating\<close>, which the job sets when
  it is not 0. At a z-score of exactly 3 nothing is emitted. With exact arithmetic and
  finite values the test is \<open>3 < |(v - mean) / stddev|\<close> over the reals.
\<close>

theorem deviation_finding:
  assumes "statistics_of P job w = Inr stats"
  shows
    "filter (\<lambda>a. aType a = ''standard_deviation'' \<and> aViolations a = [''max_salary''])
       (emitted P job w) =
       (case MaxSalary job of
          None \<Rightarrow> []
        | Some v \<Rightarrow>
            if fgt (fabs (zScore P v (AvgSalary stats) (SalaryStdDev stats))) (Finite 3)
            then [\<lparr>aID = None, aType = ''standard_deviation'', aJobID = JobID job,
                   aDescription =
                     ''Salary deviates significantly from mean (z-score: '' @
                     sprintf_2f P (zScore P v (AvgSalary stats) (SalaryStdDev stats)) @ '')'',
                   aValue = v, aThreshold = AvgSalary stats, aOperator = ''='',
                   aCreatedAt = clock w, aViolations = [''max_salary'']\<rparr>]
            else []) \<and>
     filter (\<lambda>a. aType a = ''standard_deviation'' \<and> aViolations a = [''company_rating''])
       (emitted P job w) =
       (if \<not> feq (CompanyRating job) (Finite 0) \<and>
           fgt (fabs (zScore P (CompanyRating job) (AvgRating stats) (RatingStdDev stats)))
             (Finite 3)
        then [\<lparr>aID = None, aType = ''standard_deviation'', aJobID = JobID job,
               aDescription =
                 ''Company rating deviates significantly from mean (z-score: '' @
                 sprintf_2f P
                   (zScore P (CompanyRating job) (AvgRating stats) (RatingStdDev stats)) @
                 '')'',
               aValue = CompanyRating job, aThreshold = AvgRating stats, aOperator = ''='',
               aCreatedAt = clock w, aViolations = [''company_rating'']\<rparr>]
        else []) \<and>
     zScore P x m sd = fdiv (round64 P) (fsub (round64 P) x m) sd \<and>
     (round64 P = Finite \<and> d \<noteq> 0 \<longrightarrow>
        fgt (fabs (zScore P (Finite y) (Finite c) (Finite d))) (Finite 3) = (3 < \<bar>(y - c) / d\<bar>))"
proof -
  have 1: "filter (\<lambda>a. aType a = ''standard_deviation'' \<and> aViolations a = [''max_salary''])
       (emitted P job w) =
       (case MaxSalary job of
          None \<Rightarrow> []
        | Some v \<Rightarrow>
            if fgt (fabs (zScore P v (AvgSalary stats) (SalaryStdDev stats))) (Finite 3)
            then [\<lparr>aID = None, aType = ''standard_deviation'', aJobID = JobID job,
                   aDescription =
                     ''Salary deviates significantly from mean (z-score: '' @
                     sprintf_2f P (zScore P v (AvgSalary stats) (SalaryStdDev stats)) @ '')'',
                   aValue = v, aThreshold = AvgSalary stats, aOperator = ''='',
                   aCreatedAt = clock w, aViolations = [''max_salary'']\<rparr>]
            else [])"
    by (simp add: filter_salary_emitted [OF assms] salary_emits_def salaryDeviationAnomaly_def
          StdDevThreshold_def model_consts split: option.splits)
  have 2: "filter (\<lambda>a. aType a = ''standard_deviation'' \<and> aViolations a = [''company_rating''])
       (emitted P job w) =
       (if \<not> feq (CompanyRating job) (Finite 0) \<and>
           fgt (fabs (zScore P (CompanyRating job) (AvgRating stats) (RatingStdDev stats)))
             (Finite 3)
        then [\<lparr>aID = None, aType = ''standard_deviation'', aJobID = JobID job,
               aDescription =
                 ''Company rating deviates significantly from mean (z-score: '' @
                 sprintf_2f P
                   (zScore P (CompanyRating job) (AvgRating stats) (RatingStdDev stats)) @
                 '')'',
               aValue = CompanyRating job, aThreshold = AvgRating stats, aOperator = ''='',
               aCreatedAt = clock w, aViolations = [''company_rating'']\<rparr>]
        else [])"
    by (simp add: filter_rating_emitted [OF assms] rating_emits_def ratingDeviationAnomaly_def
          StdDevThreshold_def model_consts)
  have 3: "zScore P x m sd = fdiv (round64 P) (fsub (round64 P) x m) sd"
    by (simp add: zScore_def)
  have 4: "round64 P = Finite \<and> d \<noteq> 0 \<longrightarrow>
        fgt (fabs (zScore P (Finite y) (Finite c) (Finite d))) (Finite 3) = (3 < \<bar>(y - c) / d\<bar>)"
    using zScore_exact [of P d y c] by (simp add: StdDevThreshold_def)
  show ?thesis using 1 2 3 4 by blast
qed


theorem deviation_finding_witness:
  "statistics_of test_platform test_job_2 (world_of [row_of test_job_2] []) =
     Inr test_statistics \<and>
   filter (\<lambda>a. aType a = ''standard_deviation'' \<and> aViolations a = [''max_salary''])
     (emitted test_platform test_job_2 (world_of [row_of test_job_2] [])) =
     [\<lparr>aID = None, aType = ''standard_deviation'', aJobID = ''test-job-2'',
       aDescription = ''Salary deviates significantly from mean (z-score: #.##)'',
       aValue = Finite 500000, aThreshold = Finite 100000, aOperator = ''='',
       aCreatedAt = 7, aViolations = [''max_salary'']\<rparr>] \<and>
   zScore test_platform (Finite 5) (Finite (7 / 2)) (Finite (1 / 2)) = Finite 3 \<and>
   filter (\<lambda>a. aType a = ''standard_deviation'' \<and> aViolations a = [''company_rating''])
     (emitted test_platform test_job_2 (world_of [row_of test_job_2] [])) = []"
  using deviation_finding [OF statistics_of_test_job_2]
  by (simp add: statistics_of_test_job_2 test_job_2_fields test_platform_fields world_of_clock
        test_statistics_def zScore_def fgt_def)


text \<open>
  C5, as stated, fails for \<^verbatim>\<open>company_rating\<close>: the rating is not a pointer, a job
  without a rating carries 0, and an active rule on the rating compares that 0 with its
  threshold. Here the rule \<open>rating < 1\<close> yields an anomaly with value 0.
\<close>

theorem rating_rule_counterexample:
  "CompanyRating test_job_1 = Finite 0 \<and>
   emitted test_platform test_job_1 low_rating_world =
     [\<lparr>aID = None, aType = ''null_values'', aJobID = ''test-job-1'',
       aDescription = ''Required fields are null'', aValue = Finite 0,
       aThreshold = Finite 0, aOperator = ''='', aCreatedAt = 7,
       aViolations = [''company_name'', ''company_address'', ''company_website'',
                      ''job_link'']\<rparr>,
      \<lparr>aID = None, aType = ''company_rating'', aJobID = ''test-job-1'',
       aDescription = ''Alert if company rating is below 1'', aValue = Finite 0,
       aThreshold = Finite 1, aOperator = ''<'', aCreatedAt = 7, aViolations = []\<rparr>]"
  by (simp add: run_defs test_job_1_def test_job_3_def low_rating_world_def low_rating_rule_def
        model_consts)

text \<open>
  C5, amended. A job whose maximum salary is nil yields no anomaly of type
  \<^verbatim>\<open>max_salary\<close>, and a job whose minimum salary is nil none of type
  \<^verbatim>\<open>min_salary\<close>, whatever the rules and the state of the database. A rule on
  \<^verbatim>\<open>company_rating\<close> always compares the rating the job carries.
\<close>

theorem absent_salary_skips_rule:
  "(MaxSalary job = None \<longrightarrow> (\<forall>a \<in> set (emitted P job w). aType a \<noteq> ''max_salary'')) \<and>
   (MinSalary job = None \<longrightarrow> (\<forall>a \<in> set (emitted P job w). aType a \<noteq> ''min_salary'')) \<and>
   (rType rule = ''company_rating'' \<longrightarrow>
      rule_switch job rule =
        Some (compareValues (CompanyRating job) (rValue rule) (rOperator rule),
              CompanyRating job))"
proof -
  have 1: "aType a \<noteq> ''max_salary''" if "MaxSalary job = None" "a \<in> set (emitted P job w)" for a
    using emitted_cases [OF that(2)] rule_emits_max_absent [OF that(1)] by auto
  have 2: "aType a \<noteq> ''min_salary''" if "MinSalary job = None" "a \<in> set (emitted P job w)" for a
    using emitted_cases [OF that(2)] rule_emits_min_absent [OF that(1)] by auto
  have 3: "rType rule = ''company_rating'' \<longrightarrow>
      rule_switch job rule =
        Some (compareValues (CompanyRating job) (rValue rule) (rOperator rule),
              CompanyRating job)"
    by (simp add: rule_switch_def model_consts)
  show ?thesis using 1 2 3 by blast
qed

theorem absent_salary_skips_rule_witness:
  "MaxSalary test_job_1 = None \<and> MinSalary test_job_1 = None \<and>
   map rType (anomaly_rules salary_rules_world) = [''max_salary'', ''min_salary''] \<and>
   ''max_salary'' \<notin> set (map aType (emitted test_platform test_job_1 salary_rules_world)) \<and>
   ''min_salary'' \<notin> set (map aType (emitted test_platform test_job_1 salary_rules_world)) \<and>
   rType low_rating_rule = ''company_rating'' \<and>
   rule_switch test_job_1 low_rating_rule = Some (True, Finite 0)"
proof -
  have j: "MaxSalary test_job_1 = None" "MinSalary test_job_1 = None"
    by (simp_all add: test_job_1_def)
  have r: "map rType (anomaly_rules salary_rules_world) = [''max_salary'', ''min_salary'']"
    by (simp add: salary_rules_world_def world_of_def negative_salary_rule_def model_consts)
  have l: "rType low_rating_rule = ''company_rating''"
    by (simp add: low_rating_rule_def model_consts)
  have c: "compareValues (CompanyRating test_job_1) (rValue low_rating_rule)
             (rOperator low_rating_rule) = True"
    "CompanyRating test_job_1 = Finite 0"
    by (simp_all add: compareValues_def test_job_1_def low_rating_rule_def model_consts)
  show ?thesis
    using absent_salary_skips_rule [of test_job_1 test_platform salary_rules_world low_rating_rule]
      j r l c
    by auto
qed

text \<open>
  C6, as stated, fails: \<^verbatim>\<open>GetAnomalyRules\<close> orders by \<^verbatim>\<open>created_at DESC\<close>. Of two
  matching rules the one created later is evaluated first, and its anomaly is emitted
  first.
\<close>

theorem rule_order_counterexample:
  "map rName (anomaly_rules two_rules_world) = [''Negative Salary'', ''Low Salary''] \<and>
   map rCreatedAt (anomaly_rules two_rules_world) = [1, 2] \<and>
   map aDescription (emitted test_platform (test_job_3 (- 1000)) two_rules_world) =
     [''Alert if maximum salary is below 100'', ''Alert if maximum salary is negative'']"
  by (simp add: run_defs test_job_3_def two_rules_world_def older_rule_def newer_rule_def
        negative_salary_rule_def model_consts)

text \<open>
  C6, amended. When a detection succeeds, the anomalies it emits for rules are those of
  the rules of the table taken by descending \<^verbatim>\<open>created_at\<close>, the most recently
  created rule first, each rule contributing on its own: an active rule with a known
  metric whose comparison holds contributes one anomaly, any other rule none, and what
  one iteration of the loop emits depends on the job, the rule and the clock only.
\<close>

theorem rules_evaluated_newest_first:
  assumes "fst (DetectAnomalies P job w) = Inr found"
  shows
    "filter (\<lambda>a. aType a \<in> {''max_salary'', ''min_salary'', ''company_rating''})
       (emitted P job w) =
       concat (map (rule_emits job (clock w)) (order_by_created_at_desc (anomaly_rules w))) \<and>
     sorted (rev (map rCreatedAt (order_by_created_at_desc (anomaly_rules w)))) \<and>
     mset (order_by_created_at_desc (anomaly_rules w)) = mset (anomaly_rules w) \<and>
     calls (snd (apply_rule job rule s)) =
       calls (snd s) @ map InsertAnomaly (rule_emits job (clock (snd s)) rule)"
proof -
  obtain stats where st: "statistics_of P job w = Inr stats"
    and rs: "rules_of P job stats w = Inr (order_by_created_at_desc (anomaly_rules w))"
    using DetectAnomalies_Inr [OF assms] by blast
  have 1: "filter (\<lambda>a. aType a \<in> {''max_salary'', ''min_salary'', ''company_rating''})
       (emitted P job w) =
       concat (map (rule_emits job (clock w)) (order_by_created_at_desc (anomaly_rules w)))"
    by (rule filter_rule_emitted [OF st rs])
  have 4: "calls (snd (apply_rule job rule s)) =
       calls (snd s) @ map InsertAnomaly (rule_emits job (clock (snd s)) rule)"
    using apply_rule_extends [of s job rule] by (simp add: extends_def)
  show ?thesis
    using 1 4 order_by_created_at_desc_sorted [of "anomaly_rules w"]
      order_by_created_at_desc_mset [of "anomaly_rules w"]
    by blast
qed

theorem rules_evaluated_newest_first_witness:
  "fst (DetectAnomalies test_platform (test_job_3 (- 1000)) two_rules_world) =
     Inr [\<lparr>aID = Some 1, aType = ''max_salary'', aJobID = ''test-job-3'',
            aDescription = ''Alert if maximum salary is below 100'', aValue = Finite (- 1000),
            aThreshold = Finite 100, aOperator = ''<'', aCreatedAt = 7, aViolations = []\<rparr>,
          \<lparr>aID = Some 2, aType = ''max_salary'', aJobID = ''test-job-3'',
            aDescription = ''Alert if maximum salary is negative'', aValue = Finite (- 1000),
            aThreshold = Finite 0, aOperator = ''<'', aCreatedAt = 7, aViolations = []\<rparr>] \<and>
   order_by_created_at_desc (anomaly_rules two_rules_world) = [newer_rule, older_rule] \<and>
   emitted test_platform (test_job_3 (- 1000)) two_rules_world =
     rule_emits (test_job_3 (- 1000)) 7 newer_rule @
     rule_emits (test_job_3 (- 1000)) 7 older_rule"
proof -
  have o: "order_by_created_at_desc (anomaly_rules two_rules_world) = [newer_rule, older_rule]"
    by (simp add: two_rules_world_def world_of_def order_by_created_at_desc_def older_rule_def
          newer_rule_def)
  have c: "clock two_rules_world = 7"
    by (simp add: two_rules_world_def world_of_clock)
  have e: "map aType (emitted test_platform (test_job_3 (- 1000)) two_rules_world) =
             [''max_salary'', ''max_salary'']"
    by (simp add: run_defs test_job_3_def two_rules_world_def older_rule_def newer_rule_def
          negative_salary_rule_def model_consts)
  have f: "filter (\<lambda>a. aType a \<in> {''max_salary'', ''min_salary'', ''company_rating''})
             (emitted test_platform (test_job_3 (- 1000)) two_rules_world) =
           emitted test_platform (test_job_3 (- 1000)) two_rules_world"
    using arg_cong [OF e, of set] by (auto simp: filter_id_conv)
  from rules_evaluated_newest_first [OF two_rules_run]
  have "filter (\<lambda>a. aType a \<in> {''max_salary'', ''min_salary'', ''company_rating''})
          (emitted test_platform (test_job_3 (- 1000)) two_rules_world) =
        concat (map (rule_emits (test_job_3 (- 1000)) (clock two_rules_world))
                  (order_by_created_at_desc (anomaly_rules two_rules_world)))"
    by blast
  then have "emitted test_platform (test_job_3 (- 1000)) two_rules_world =
     rule_emits (test_job_3 (- 1000)) 7 newer_rule @
     rule_emits (test_job_3 (- 1000)) 7 older_rule"
    unfolding f o c by simp
  then show ?thesis
    using two_rules_run o by simp
qed

text \<open>
  C7. \<^verbatim>\<open>compareValues\<close> is the float64 comparison the operator names: strictly greater,
  greater or equal, strictly less, less or equal, and equality with no tolerance; on
  finite values these are the comparisons of the reals. One iteration of the rule loop
  with an active rule on \<^verbatim>\<open>max_salary\<close> with operator \<^verbatim>\<open><\<close> and threshold 0 hands
  to \<^verbatim>\<open>saveAnomaly\<close> an anomaly with value -1000, threshold 0 and operator \<^verbatim>\<open><\<close> for
  a job whose maximum salary is -1000, and does nothing for a job whose maximum salary
  is 500.
\<close>

theorem compareValues_semantics:
  assumes "rIsActive rule" and "rType rule = ''max_salary''"
    and "rOperator rule = ''<''" and "rValue rule = Finite 0"
    and "MaxSalary low = Some (Finite (- 1000))" and "MaxSalary high = Some (Finite 500)"
  shows "compareValues v t ''>'' = fgt v t \<and>
         compareValues v t ''>='' = fge v t \<and>
         compareValues v t ''<'' = flt v t \<and>
         compareValues v t ''<='' = fle v t \<and>
         compareValues v t ''='' = feq v t \<and>
         compareValues (Finite a) (Finite b) ''>'' = (b < a) \<and>
         compareValues (Finite a) (Finite b) ''>='' = (b \<le> a) \<and>
         compareValues (Finite a) (Finite b) ''<'' = (a < b) \<and>
         compareValues (Finite a) (Finite b) ''<='' = (a \<le> b) \<and>
         compareValues (Finite a) (Finite b) ''='' = (a = b) \<and>
         calls (snd (apply_rule low rule s)) =
           calls (snd s) @
           [InsertAnomaly
              \<lparr>aID = None, aType = ''max_salary'', aJobID = JobID low,
               aDescription = rDescription rule, aValue = Finite (- 1000),
               aThreshold = Finite 0, aOperator = ''<'', aCreatedAt = clock (snd s),
               aViolations = []\<rparr>] \<and>
         apply_rule high rule s = s"
proof -
  have ops: "compareValues v t ''>'' = fgt v t \<and>
         compareValues v t ''>='' = fge v t \<and>
         compareValues v t ''<'' = flt v t \<and>
         compareValues v t ''<='' = fle v t \<and>
         compareValues v t ''='' = feq v t" for v t
    by (simp add: compareValues_def model_consts)
  have fin: "compareValues (Finite a) (Finite b) ''>'' = (b < a) \<and>
         compareValues (Finite a) (Finite b) ''>='' = (b \<le> a) \<and>
         compareValues (Finite a) (Finite b) ''<'' = (a < b) \<and>
         compareValues (Finite a) (Finite b) ''<='' = (a \<le> b) \<and>
         compareValues (Finite a) (Finite b) ''='' = (a = b)"
    by (auto simp: ops fgt_def fge_def fle_def)
  have lo: "rule_switch low rule = Some (True, Finite (- 1000))"
    using assms by (simp add: rule_switch_def ops model_consts)
  have hi: "rule_switch high rule = Some (False, Finite 500)"
    using assms by (simp add: rule_switch_def ops model_consts)
  have 1: "calls (snd (apply_rule low rule s)) =
           calls (snd s) @
           [InsertAnomaly
              \<lparr>aID = None, aType = ''max_salary'', aJobID = JobID low,
               aDescription = rDescription rule, aValue = Finite (- 1000),
               aThreshold = Finite 0, aOperator = ''<'', aCreatedAt = clock (snd s),
               aViolations = []\<rparr>]"
    using assms by (simp add: apply_rule_def lo save_or_print_calls ruleAnomaly_def)
  have 2: "apply_rule high rule s = s"
    using assms by (simp add: apply_rule_def hi)
  show ?thesis using ops fin 1 2 by blast
qed

theorem compareValues_semantics_witness:
  "rIsActive negative_salary_rule \<and> rType negative_salary_rule = ''max_salary'' \<and>
   rOperator negative_salary_rule = ''<'' \<and> rValue negative_salary_rule = Finite 0 \<and>
   MaxSalary (test_job_3 (- 1000)) = Some (Finite (- 1000)) \<and>
   MaxSalary (test_job_3 500) = Some (Finite 500) \<and>
   fst (apply_rule (test_job_3 (- 1000)) negative_salary_rule
          ([], world_of [row_of (test_job_3 (- 1000))] [negative_salary_rule])) =
     [\<lparr>aID = Some 1, aType = ''max_salary'', aJobID = ''test-job-3'',
       aDescription = ''Alert if maximum salary is negative'', aValue = Finite (- 1000),
       aThreshold = Finite 0, aOperator = ''<'', aCreatedAt = 7, aViolations = []\<rparr>] \<and>
   calls (snd (apply_rule (test_job_3 (- 1000)) negative_salary_rule
          ([], world_of [row_of (test_job_3 (- 1000))] [negative_salary_rule]))) =
     [InsertAnomaly
        \<lparr>aID = None, aType = ''max_salary'', aJobID = ''test-job-3'',
         aDescription = ''Alert if maximum salary is negative'', aValue = Finite (- 1000),
         aThreshold = Finite 0, aOperator = ''<'', aCreatedAt = 7, aViolations = []\<rparr>] \<and>
   apply_rule (test_job_3 500) negative_salary_rule
     ([], world_of [row_of (test_job_3 500)] [negative_salary_rule]) =
     ([], world_of [row_of (test_job_3 500)] [negative_salary_rule])"
proof -
  have stored:
    "fst (apply_rule (test_job_3 (- 1000)) negative_salary_rule
          ([], world_of [row_of (test_job_3 (- 1000))] [negative_salary_rule])) =
     [\<lparr>aID = Some 1, aType = ''max_salary'', aJobID = ''test-job-3'',
       aDescription = ''Alert if maximum salary is negative'', aValue = Finite (- 1000),
       aThreshold = Finite 0, aOperator = ''<'', aCreatedAt = 7, aViolations = []\<rparr>]"
    by (simp add: apply_rule_def rule_switch_def compareValues_def save_or_print_def
          saveAnomaly_def db_call_def ruleAnomaly_def negative_salary_rule_def test_job_3_def
          world_of_def row_of_def model_consts Let_def)
  show ?thesis
    using stored
      compareValues_semantics [of negative_salary_rule "test_job_3 (- 1000)" "test_job_3 500"
        _ _ _ _ "([], world_of [row_of (test_job_3 (- 1000))] [negative_salary_rule])"]
      compareValues_semantics [of negative_salary_rule "test_job_3 (- 1000)" "test_job_3 500"
        _ _ _ _ "([], world_of [row_of (test_job_3 500)] [negative_salary_rule])"]
    by (simp add: negative_salary_rule_def test_job_3_def world_of_def model_consts)
qed

text \<open>
  C8, as stated, fails: \<^verbatim>\<open>CreateAnomalyRule\<close> checks neither the operator nor the
  metric. A rule with the metric \<^verbatim>\<open>salary\<close> and the operator \<^verbatim>\<open>!=\<close> is created
  without an error and stored.
\<close>

theorem create_rule_counterexample:
  "\<not> IsValidOperator (rOperator malformed_rule) \<and>
   rType malformed_rule \<notin> {''max_salary'', ''min_salary'', ''company_rating''} \<and>
   fst (CreateAnomalyRule malformed_rule (world_of [] [])) = None \<and>
   anomaly_rules (snd (snd (CreateAnomalyRule malformed_rule (world_of [] [])))) =
     [\<lparr>rID = 1, rName = ''Odd Salary'', rDescription = ''Alert if salary is odd'',
       rType = ''salary'', rOperator = ''!='', rValue = Finite 0,
       rIsActive = True, rCreatedAt = 7, rUpdatedAt = 7\<rparr>]"
  by (simp add: IsValidOperator_iff CreateAnomalyRule_def db_call_def world_of_def
        malformed_rule_def Let_def)

text \<open>
  C8, amended. \<^verbatim>\<open>CreateAnomalyRule\<close> stores the rule as given, with its time stamps
  and key, whenever the insert succeeds (the driver does not fail and the name is new),
  whatever its operator and metric. \<^verbatim>\<open>IsValidOperator\<close> holds of the five operators
  only, and rule creation does not call it. A malformed rule is harmless at evaluation:
  an iteration of the rule loop skips a rule with an unknown metric, and a rule with an
  invalid operator never matches.
\<close>

theorem create_rule_unvalidated:
  assumes "\<not> faults w (length (calls w))"
    and "rName rule \<notin> set (map rName (anomaly_rules w))"
  shows
    "fst (CreateAnomalyRule rule w) = None \<and>
     anomaly_rules (snd (snd (CreateAnomalyRule rule w))) =
       anomaly_rules w @
       [rule\<lparr>rID := next_rule_id w, rCreatedAt := clock w, rUpdatedAt := clock w\<rparr>] \<and>
     IsValidOperator op = (op \<in> {''>'', ''>='', ''<'', ''<='', ''=''}) \<and>
     (rType rule \<notin> {''max_salary'', ''min_salary'', ''company_rating''} \<longrightarrow>
        apply_rule job rule s = s) \<and>
     (\<not> IsValidOperator (rOperator rule) \<longrightarrow> apply_rule job rule s = s)"
proof -
  have 1: "fst (CreateAnomalyRule rule w) = None \<and>
     anomaly_rules (snd (snd (CreateAnomalyRule rule w))) =
       anomaly_rules w @
       [rule\<lparr>rID := next_rule_id w, rCreatedAt := clock w, rUpdatedAt := clock w\<rparr>]"
    using assms by (simp add: CreateAnomalyRule_def db_call_def Let_def)
  show ?thesis
    using 1 IsValidOperator_iff [of op] apply_rule_unknown_metric [of rule job s]
      apply_rule_invalid_operator [of rule job s]
    by blast
qed

theorem create_rule_unvalidated_witness:
  "\<not> faults (world_of [] [negative_salary_rule]) (length (calls (world_of [] [negative_salary_rule]))) \<and>
   rName malformed_rule \<notin> set (map rName (anomaly_rules (world_of [] [negative_salary_rule]))) \<and>
   fst (CreateAnomalyRule malformed_rule (world_of [] [negative_salary_rule])) = None \<and>
   anomaly_rules (snd (snd (CreateAnomalyRule malformed_rule (world_of [] [negative_salary_rule])))) =
     [negative_salary_rule, malformed_rule\<lparr>rID := 2, rCreatedAt := 7, rUpdatedAt := 7\<rparr>] \<and>
   \<not> IsValidOperator ''!='' \<and>
   apply_rule (test_job_3 (- 1000)) malformed_rule ([], world_of [] [malformed_rule]) =
     ([], world_of [] [malformed_rule])"
proof -
  have f: "\<not> faults (world_of [] [negative_salary_rule])
               (length (calls (world_of [] [negative_salary_rule])))"
    by (simp add: world_of_def)
  have n: "rName malformed_rule \<notin> set (map rName (anomaly_rules (world_of [] [negative_salary_rule])))"
    by (simp add: world_of_def malformed_rule_def negative_salary_rule_def)
  show ?thesis
    using f n create_rule_unvalidated [OF f n, of "''!=''" "test_job_3 (- 1000)"
        "([], world_of [] [malformed_rule])"]
    by (simp add: world_of_def malformed_rule_def)
qed






text \<open>
  C10. For a job identifier with no stored anomaly, \<^verbatim>\<open>GetAnomaliesByJobID\<close> returns
  the empty list and no error; its only error is that of a query the driver fails,
  never one for the missing rows.
\<close>

theorem no_findings_no_error:
  assumes "\<forall>a \<in> set (anomalies w). aJobID a \<noteq> jobID"
  shows "fst (GetAnomaliesByJobID jobID w) =
           (if faults w (length (calls w))
            then Inl (Wrap ''error querying anomalies by job ID'' DriverError)
            else Inr [])"
proof -
  have "filter (\<lambda>a. aJobID a = jobID) (anomalies w) = []"
    using assms by (simp add: filter_empty_conv)
  then show ?thesis
    by (simp add: GetAnomaliesByJobID_def db_call_def Let_def)
qed

theorem no_findings_no_error_witness:
  "''test-job-3'' \<notin> set (map aJobID (anomalies stored_world)) \<and>
   anomalies stored_world \<noteq> [] \<and>
   fst (GetAnomaliesByJobID ''test-job-3'' stored_world) = Inr []"
proof -
  have h: "\<forall>a \<in> set (anomalies stored_world). aJobID a \<noteq> ''test-job-3''"
    by (simp add: stored_world_anomalies)
  show ?thesis
    using no_findings_no_error [OF h]
    by (simp add: stored_world_anomalies)
qed

end
